theory Spec2Isabelle
  imports Complex_Main
begin

section \<open>JavaScript strings\<close>

text \<open>
  A JavaScript string is modelled as a \<^typ>\<open>string\<close> holding the UTF-8 bytes of its
  text. The operations the program applies to strings are comparison, emptiness,
  \<^verbatim>\<open>startsWith\<close>, \<^verbatim>\<open>includes\<close>, \<^verbatim>\<open>toLowerCase\<close> and tests against
  case-insensitive regular expressions whose source is a plain ASCII literal. On ASCII
  text the definitions below are what ECMAScript computes. Bytes from \<open>0x80\<close> on
  (parts of a non-ASCII character) never equal an ASCII byte and are left unchanged by
  the case mappings, so a test against an ASCII literal is also exact on non-ASCII text;
  the Unicode lower-casing of non-ASCII letters is not modelled.
\<close>

definition code_of :: "char \<Rightarrow> nat" where
  "code_of c = of_char c"

text \<open>\<^verbatim>\<open>s.startsWith(p)\<close>\<close>

fun starts_with :: "string \<Rightarrow> string \<Rightarrow> bool" where
  "starts_with s [] = True"
| "starts_with [] (p # ps) = False"
| "starts_with (c # cs) (p # ps) = (c = p \<and> starts_with cs ps)"

text \<open>\<^verbatim>\<open>s.includes(p)\<close>\<close>

fun str_includes :: "string \<Rightarrow> string \<Rightarrow> bool" where
  "str_includes [] p = (p = [])"
| "str_includes (c # cs) p = (starts_with (c # cs) p \<or> str_includes cs p)"

definition ascii_upper :: "char \<Rightarrow> char" where
  "ascii_upper c =
     (if 97 \<le> code_of c \<and> code_of c \<le> 122 then char_of (code_of c - 32) else c)"

definition ascii_lower :: "char \<Rightarrow> char" where
  "ascii_lower c =
     (if 65 \<le> code_of c \<and> code_of c \<le> 90 then char_of (code_of c + 32) else c)"

text \<open>\<^verbatim>\<open>s.toLowerCase()\<close>\<close>

definition toLowerCase :: "string \<Rightarrow> string" where
  "toLowerCase s = map ascii_lower s"

text \<open>
  \<^verbatim>\<open>/literal/i.test(s)\<close> for a pattern that is a plain ASCII literal (no
  metacharacters): the pattern matches at some position of \<open>s\<close>, characters being
  compared after the canonicalisation of the \<^verbatim>\<open>i\<close> flag, which maps a character to
  its upper case and never maps a non-ASCII character to an ASCII one.
\<close>

definition regex_test_i :: "string \<Rightarrow> string \<Rightarrow> bool" where
  "regex_test_i pattern s = str_includes (map ascii_upper s) (map ascii_upper pattern)"

section \<open>Requests\<close>

text \<open>
  The part of a \<^verbatim>\<open>NextRequest\<close> the program reads. Header names are
  case-insensitive: the table is keyed by lower-case names and \<open>headers_get\<close> is
  \<^verbatim>\<open>request.headers.get(name)\<close>, \<open>None\<close> standing for \<^verbatim>\<open>null\<close>.
\<close>

record NextRequest =
  url :: string
  pathname :: string
  headers :: "string \<rightharpoonup> string"

definition headers_get :: "NextRequest \<Rightarrow> string \<Rightarrow> string option" where
  "headers_get request name = headers request (toLowerCase name)"

text \<open>\<^verbatim>\<open>x || ''\<close> for a string or \<^verbatim>\<open>null\<close>, and \<^verbatim>\<open>!x\<close>.\<close>

definition or_empty :: "string option \<Rightarrow> string" where
  "or_empty x = (case x of None \<Rightarrow> [] | Some s \<Rightarrow> s)"

definition falsy_str :: "string option \<Rightarrow> bool" where
  "falsy_str x = (case x of None \<Rightarrow> True | Some s \<Rightarrow> s = [])"

section \<open>Bot and crawler classifier\<close>

text \<open>The sources of the regular expressions of \<^verbatim>\<open>BOT_PATTERNS\<close>, all with flag \<^verbatim>\<open>i\<close>.\<close>

definition BOT_PATTERNS :: "string list" where
  "BOT_PATTERNS =
    [''bot'', ''crawler'', ''spider'', ''crawling'',
     ''googlebot'', ''bingbot'', ''slurp'', ''duckduckbot'', ''baiduspider'',
     ''yandexbot'', ''sogou'', ''exabot'', ''facebot'', ''ia_archiver'',
     ''GPTBot'', ''ChatGPT'', ''Claude'', ''Google-Extended'', ''anthropic'',
     ''PerplexityBot'', ''CCBot'', ''Bytespider'',
     ''scrapy'', ''wget'', ''curl'', ''httpie'', ''python-requests'',
     ''go-http-client'', ''java'', ''okhttp'', ''axios'', ''node-fetch'',
     ''Screaming Frog'', ''Semrush'', ''Ahrefs'', ''Majestic'', ''Moz'',
     ''facebookexternalhit'', ''Twitterbot'', ''LinkedInBot'', ''Slackbot'',
     ''TelegramBot'', ''WhatsApp'', ''Discordbot'',
     ''HeadlessChrome'', ''PhantomJS'', ''Selenium'', ''Puppeteer'', ''Playwright'']"

definition hasNoJavaScript :: "NextRequest \<Rightarrow> bool" where
  "hasNoJavaScript request =
     (let acceptHeader = or_empty (headers_get request ''accept'');
          hasHtmlAccept = str_includes acceptHeader ''text/html'';
          hasImageAccept = str_includes acceptHeader ''image/''
      in \<not> hasHtmlAccept \<and> \<not> hasImageAccept)"

definition hasSuspiciousHeaders :: "NextRequest \<Rightarrow> bool" where
  "hasSuspiciousHeaders request =
     (let acceptLanguage = headers_get request ''accept-language'';
          acceptEncoding = headers_get request ''accept-encoding''
      in falsy_str acceptLanguage \<or> falsy_str acceptEncoding)"

text \<open>
  \<^verbatim>\<open>isBot(userAgent, request?)\<close>; \<open>None\<close> is the call without the second argument.
\<close>

definition isBot :: "string \<Rightarrow> NextRequest option \<Rightarrow> bool" where
  "isBot userAgent request =
     (if userAgent = [] then True
      else if list_ex (\<lambda>pattern. regex_test_i pattern userAgent) BOT_PATTERNS then True
      else (case request of
              None \<Rightarrow> False
            | Some r \<Rightarrow>
                if hasNoJavaScript r then True
                else if hasSuspiciousHeaders r then True
                else False))"

definition AI_CRAWLER_PATTERNS :: "string list" where
  "AI_CRAWLER_PATTERNS =
    [''GPTBot'', ''ChatGPT-User'', ''Claude-Web'', ''ClaudeBot'', ''Google-Extended'',
     ''anthropic-ai'', ''cohere-ai'', ''PerplexityBot'', ''Omgilibot'', ''FacebookBot'',
     ''Applebot-Extended'', ''Bytespider'', ''CCBot'', ''anthropic'', ''AI2Bot'',
     ''YouBot'']"

definition isAICrawler :: "string \<Rightarrow> bool" where
  "isAICrawler userAgent =
     (if userAgent = [] then False
      else list_ex (\<lambda>pattern. regex_test_i pattern userAgent) AI_CRAWLER_PATTERNS)"

section \<open>Base64\<close>

text \<open>
  \<^verbatim>\<open>Buffer.from(bytes).toString('base64')\<close>: the standard alphabet, three bytes to four
  characters, the last group padded with \<^verbatim>\<open>=\<close>.
\<close>

definition b64_char :: "nat \<Rightarrow> char" where
  "b64_char k =
     (if k < 26 then char_of (65 + k)
      else if k < 52 then char_of (71 + k)
      else if k < 62 then char_of (k - 4)
      else if k = 62 then CHR ''+''
      else CHR ''/'')"

fun base64_encode :: "string \<Rightarrow> string" where
  "base64_encode (a # b # c # rest) =
     b64_char (code_of a div 4) #
     b64_char (code_of a mod 4 * 16 + code_of b div 16) #
     b64_char (code_of b mod 16 * 4 + code_of c div 64) #
     b64_char (code_of c mod 64) # base64_encode rest"
| "base64_encode [a, b] =
     [b64_char (code_of a div 4),
      b64_char (code_of a mod 4 * 16 + code_of b div 16),
      b64_char (code_of b mod 16 * 4), CHR ''='']"
| "base64_encode [a] =
     [b64_char (code_of a div 4), b64_char (code_of a mod 4 * 16), CHR ''='', CHR ''='']"
| "base64_encode [] = []"

text \<open>
  \<^verbatim>\<open>Buffer.from(s, 'base64')\<close> never fails: characters outside the alphabet are
  skipped, the URL-safe characters \<^verbatim>\<open>-\<close> and \<^verbatim>\<open>_\<close> are accepted, decoding stops at
  the first \<^verbatim>\<open>=\<close>, and an incomplete last group yields the bytes it determines.
\<close>

definition unbase64 :: "char \<Rightarrow> nat option" where
  "unbase64 c =
     (let n = code_of c in
      if 65 \<le> n \<and> n \<le> 90 then Some (n - 65)
      else if 97 \<le> n \<and> n \<le> 122 then Some (n - 71)
      else if 48 \<le> n \<and> n \<le> 57 then Some (n + 4)
      else if c = CHR ''+'' \<or> c = CHR ''-'' then Some 62
      else if c = CHR ''/'' \<or> c = CHR ''_'' then Some 63
      else None)"

fun base64_sextets :: "string \<Rightarrow> nat list" where
  "base64_sextets [] = []"
| "base64_sextets (c # cs) =
     (if c = CHR ''='' then []
      else case unbase64 c of
             Some k \<Rightarrow> k # base64_sextets cs
           | None \<Rightarrow> base64_sextets cs)"

fun base64_bytes :: "nat list \<Rightarrow> string" where
  "base64_bytes (a # b # c # d # rest) =
     char_of (a * 4 + b div 16) # char_of (b mod 16 * 16 + c div 4) #
     char_of (c mod 4 * 64 + d) # base64_bytes rest"
| "base64_bytes [a, b, c] = [char_of (a * 4 + b div 16), char_of (b mod 16 * 16 + c div 4)]"
| "base64_bytes [a, b] = [char_of (a * 4 + b div 16)]"
| "base64_bytes [a] = []"
| "base64_bytes [] = []"

definition base64_decode :: "string \<Rightarrow> string" where
  "base64_decode s = base64_bytes (base64_sextets s)"

section \<open>UTF-8\<close>

text \<open>
  \<^verbatim>\<open>buffer.toString('utf-8')\<close> never fails either: bytes that are not part of a
  well-formed UTF-8 sequence are replaced by U+FFFD, one replacement for each maximal
  ill-formed prefix. The decoder reads one byte at a time; \<open>Pending k lo hi acc\<close> is
  the state inside a character: \<open>k\<close> more bytes are needed, the next one must lie in
  \<open>lo..hi\<close>, and \<open>acc\<close> are the bytes of the character read so far. Since texts are
  held as their UTF-8 bytes, a well-formed sequence is copied as it is.
\<close>

definition replacement :: string where
  "replacement = [CHR 0xEF, CHR 0xBF, CHR 0xBD]"

datatype utf8_state = Idle | Pending nat nat nat string

definition utf8_lead :: "char \<Rightarrow> string \<times> utf8_state" where
  "utf8_lead b =
     (let n = code_of b in
      if n < 0x80 then ([b], Idle)
      else if 0xC2 \<le> n \<and> n \<le> 0xDF then ([], Pending 1 0x80 0xBF [b])
      else if n = 0xE0 then ([], Pending 2 0xA0 0xBF [b])
      else if n = 0xED then ([], Pending 2 0x80 0x9F [b])
      else if 0xE1 \<le> n \<and> n \<le> 0xEF then ([], Pending 2 0x80 0xBF [b])
      else if n = 0xF0 then ([], Pending 3 0x90 0xBF [b])
      else if n = 0xF4 then ([], Pending 3 0x80 0x8F [b])
      else if 0xF1 \<le> n \<and> n \<le> 0xF3 then ([], Pending 3 0x80 0xBF [b])
      else (replacement, Idle))"

definition utf8_step :: "utf8_state \<Rightarrow> char \<Rightarrow> string \<times> utf8_state" where
  "utf8_step st b =
     (case st of
        Idle \<Rightarrow> utf8_lead b
      | Pending k lo hi acc \<Rightarrow>
          if lo \<le> code_of b \<and> code_of b \<le> hi
          then (if k = 1 then (acc @ [b], Idle) else ([], Pending (k - 1) 0x80 0xBF (acc @ [b])))
          else (replacement @ fst (utf8_lead b), snd (utf8_lead b)))"

fun utf8_scan :: "utf8_state \<Rightarrow> string \<Rightarrow> string \<times> utf8_state" where
  "utf8_scan st [] = ([], st)"
| "utf8_scan st (b # bs) =
     (case utf8_step st b of
        (out, st') \<Rightarrow>
          (case utf8_scan st' bs of
             (rest, final) \<Rightarrow> (out @ rest, final)))"

text \<open>An unfinished character at the end of the input is replaced as well.\<close>

definition utf8_toString :: "string \<Rightarrow> string" where
  "utf8_toString bytes =
     (case utf8_scan Idle bytes of
        (out, Idle) \<Rightarrow> out
      | (out, Pending k lo hi acc) \<Rightarrow> out @ replacement)"

text \<open>
  A string is the UTF-8 form of a text when the decoder copies it unchanged and ends
  between two characters. \<^verbatim>\<open>Buffer.from(text)\<close> yields these bytes.
\<close>

definition well_formed_text :: "string \<Rightarrow> bool" where
  "well_formed_text s = (utf8_scan Idle s = (s, Idle))"

text \<open>
  Two notions used to reason about the decoder: a byte below \<open>0x80\<close> is a character
  by itself, and inside a character the decoder expects a byte from \<open>0x80\<close> on and
  has read only such bytes.
\<close>

definition ascii :: "char \<Rightarrow> bool" where
  "ascii c = (code_of c < 0x80)"

definition state_ok :: "utf8_state \<Rightarrow> bool" where
  "state_ok st =
     (case st of
        Idle \<Rightarrow> True
      | Pending k lo hi acc \<Rightarrow> 0x80 \<le> lo \<and> list_all (\<lambda>c. \<not> ascii c) acc)"

text \<open>
  The bytes of the character with a given code, as a \<^verbatim>\<open>\uXXXX\<close> escape or a pair of
  them denotes it. An unpaired surrogate escape is kept in the same three-byte form.
\<close>

definition utf8_encode_unit :: "nat \<Rightarrow> string" where
  "utf8_encode_unit u =
     (if u < 0x80 then [char_of u]
      else if u < 0x800 then [char_of (0xC0 + u div 64), char_of (0x80 + u mod 64)]
      else if u < 0x10000 then
        [char_of (0xE0 + u div 4096), char_of (0x80 + u div 64 mod 64), char_of (0x80 + u mod 64)]
      else
        [char_of (0xF0 + u div 262144), char_of (0x80 + u div 4096 mod 64),
         char_of (0x80 + u div 64 mod 64), char_of (0x80 + u mod 64)])"

section \<open>JSON\<close>

text \<open>
  The values \<^verbatim>\<open>JSON.parse\<close> returns. An object keeps its members in source order,
  duplicates included; a property read takes the last member of that name. A number is
  held as the exact value of its literal: JavaScript rounds it to the nearest double,
  which leaves every integer of magnitude up to \<open>2^53\<close> as it is.
\<close>

datatype json =
    JNull
  | JBool bool
  | JNumber rat
  | JString string
  | JArray "json list"
  | JObject "(string \<times> json) list"

definition dquote :: char where "dquote = CHR 0x22"
definition backslash :: char where "backslash = CHR 0x5C"

text \<open>
  \<^verbatim>\<open>JSON.parse\<close> is a lexer over the characters followed by a parser over the
  tokens; both read their input once, left to right, so both are total. The lexer state
  \<open>InString raw\<close> holds the characters of a string literal read so far, escapes not yet
  decoded, and \<open>InNumber phase acc\<close> the part of the number grammar
  \<^verbatim>\<open>-?(0|[1-9][0-9]*)(\.[0-9]+)?([eE][+-]?[0-9]+)?\<close> reached so far.
\<close>

datatype token =
  LBrace | RBrace | LBracket | RBracket | Colon | Comma
  | TString string | TNumber rat | TTrue | TFalse | TNull

datatype num_phase =
  AfterMinus | AfterZero | IntDigits | AfterPoint | FracDigits | AfterE | AfterESign | ExpDigits

record numacc =
  negative :: bool
  mantissa :: nat
  frac_digits :: nat
  exp_negative :: bool
  exponent :: nat

datatype lex_state =
    Start
  | InString string
  | InEscape string
  | InLiteral string token
  | InNumber num_phase numacc

definition is_ws :: "char \<Rightarrow> bool" where
  "is_ws c = (c = CHR 0x20 \<or> c = CHR 0x09 \<or> c = CHR 0x0A \<or> c = CHR 0x0D)"

definition is_digit :: "char \<Rightarrow> bool" where
  "is_digit c = (48 \<le> code_of c \<and> code_of c \<le> 57)"

definition digit_val :: "char \<Rightarrow> nat" where
  "digit_val c = code_of c - 48"

definition number_value :: "numacc \<Rightarrow> rat" where
  "number_value a =
     (let m = (if negative a then - of_nat (mantissa a) else of_nat (mantissa a));
          e = (if exp_negative a then - int (exponent a) else int (exponent a))
              - int (frac_digits a)
      in if 0 \<le> e then m * 10 ^ nat e else m / 10 ^ nat (- e))"

text \<open>Decoding the escapes of a string literal; \<open>None\<close> is a syntax error.\<close>

definition hex_val :: "char \<Rightarrow> nat option" where
  "hex_val c =
     (let n = code_of c in
      if 48 \<le> n \<and> n \<le> 57 then Some (n - 48)
      else if 97 \<le> n \<and> n \<le> 102 then Some (n - 87)
      else if 65 \<le> n \<and> n \<le> 70 then Some (n - 55)
      else None)"

definition hex4 :: "char \<Rightarrow> char \<Rightarrow> char \<Rightarrow> char \<Rightarrow> nat option" where
  "hex4 a b c d =
     (case (hex_val a, hex_val b, hex_val c, hex_val d) of
        (Some w, Some x, Some y, Some z) \<Rightarrow> Some (w * 4096 + x * 256 + y * 16 + z)
      | _ \<Rightarrow> None)"

definition simple_escape :: "char \<Rightarrow> char option" where
  "simple_escape e =
     (if e = dquote then Some dquote
      else if e = backslash then Some backslash
      else if e = CHR ''/'' then Some CHR ''/''
      else if e = CHR ''b'' then Some (CHR 0x08)
      else if e = CHR ''f'' then Some (CHR 0x0C)
      else if e = CHR ''n'' then Some (CHR 0x0A)
      else if e = CHR ''r'' then Some (CHR 0x0D)
      else if e = CHR ''t'' then Some (CHR 0x09)
      else None)"

definition low_surrogate_escape :: "string \<Rightarrow> nat option" where
  "low_surrogate_escape r =
     (case r of
        b # u # h1 # h2 # h3 # h4 # r' \<Rightarrow>
          if b = backslash \<and> u = CHR ''u'' then
            (case hex4 h1 h2 h3 h4 of
               Some v \<Rightarrow> if 0xDC00 \<le> v \<and> v \<le> 0xDFFF then Some v else None
             | None \<Rightarrow> None)
          else None
      | _ \<Rightarrow> None)"

fun json_unescape :: "string \<Rightarrow> string option" where
  "json_unescape [] = Some []"
| "json_unescape (c # cs) =
     (if c = backslash then
        (case cs of
           [] \<Rightarrow> None
         | e # r \<Rightarrow>
             if e = CHR ''u'' then
               (case r of
                  h1 # h2 # h3 # h4 # r' \<Rightarrow>
                    (case hex4 h1 h2 h3 h4 of
                       None \<Rightarrow> None
                     | Some v \<Rightarrow>
                         (case (if 0xD800 \<le> v \<and> v \<le> 0xDBFF then low_surrogate_escape r' else None) of
                            Some w \<Rightarrow>
                              map_option
                                ((@) (utf8_encode_unit (0x10000 + (v - 0xD800) * 1024 + (w - 0xDC00))))
                                (json_unescape (drop 6 r'))
                          | None \<Rightarrow> map_option ((@) (utf8_encode_unit v)) (json_unescape r')))
                | _ \<Rightarrow> None)
             else
               (case simple_escape e of
                  None \<Rightarrow> None
                | Some x \<Rightarrow> map_option ((#) x) (json_unescape r)))
      else if code_of c < 0x20 then None
      else map_option ((#) c) (json_unescape cs))"

text \<open>The lexer.\<close>

definition add_int_digit :: "numacc \<Rightarrow> char \<Rightarrow> numacc" where
  "add_int_digit a c = a\<lparr>mantissa := mantissa a * 10 + digit_val c\<rparr>"

definition add_frac_digit :: "numacc \<Rightarrow> char \<Rightarrow> numacc" where
  "add_frac_digit a c =
     a\<lparr>mantissa := mantissa a * 10 + digit_val c, frac_digits := frac_digits a + 1\<rparr>"

definition add_exp_digit :: "numacc \<Rightarrow> char \<Rightarrow> numacc" where
  "add_exp_digit a c = a\<lparr>exponent := exponent a * 10 + digit_val c\<rparr>"

definition new_number :: "bool \<Rightarrow> nat \<Rightarrow> numacc" where
  "new_number neg m =
     \<lparr>negative = neg, mantissa = m, frac_digits = 0, exp_negative = False, exponent = 0\<rparr>"

definition lex_start :: "char \<Rightarrow> (token list \<times> lex_state) option" where
  "lex_start c =
     (if is_ws c then Some ([], Start)
      else if c = CHR ''{'' then Some ([LBrace], Start)
      else if c = CHR ''}'' then Some ([RBrace], Start)
      else if c = CHR ''['' then Some ([LBracket], Start)
      else if c = CHR '']'' then Some ([RBracket], Start)
      else if c = CHR '':'' then Some ([Colon], Start)
      else if c = CHR '','' then Some ([Comma], Start)
      else if c = dquote then Some ([], InString [])
      else if c = CHR ''t'' then Some ([], InLiteral ''rue'' TTrue)
      else if c = CHR ''f'' then Some ([], InLiteral ''alse'' TFalse)
      else if c = CHR ''n'' then Some ([], InLiteral ''ull'' TNull)
      else if c = CHR ''-'' then Some ([], InNumber AfterMinus (new_number True 0))
      else if c = CHR ''0'' then Some ([], InNumber AfterZero (new_number False 0))
      else if is_digit c then Some ([], InNumber IntDigits (new_number False (digit_val c)))
      else None)"

definition end_number :: "numacc \<Rightarrow> char \<Rightarrow> (token list \<times> lex_state) option" where
  "end_number a c =
     (case lex_start c of
        None \<Rightarrow> None
      | Some (ts, st) \<Rightarrow> Some (TNumber (number_value a) # ts, st))"

definition lex_number :: "num_phase \<Rightarrow> numacc \<Rightarrow> char \<Rightarrow> (token list \<times> lex_state) option" where
  "lex_number ph a c =
     (case ph of
        AfterMinus \<Rightarrow>
          if c = CHR ''0'' then Some ([], InNumber AfterZero a)
          else if is_digit c then Some ([], InNumber IntDigits (add_int_digit a c))
          else None
      | AfterZero \<Rightarrow>
          if c = CHR ''.'' then Some ([], InNumber AfterPoint a)
          else if c = CHR ''e'' \<or> c = CHR ''E'' then Some ([], InNumber AfterE a)
          else end_number a c
      | IntDigits \<Rightarrow>
          if is_digit c then Some ([], InNumber IntDigits (add_int_digit a c))
          else if c = CHR ''.'' then Some ([], InNumber AfterPoint a)
          else if c = CHR ''e'' \<or> c = CHR ''E'' then Some ([], InNumber AfterE a)
          else end_number a c
      | AfterPoint \<Rightarrow>
          if is_digit c then Some ([], InNumber FracDigits (add_frac_digit a c)) else None
      | FracDigits \<Rightarrow>
          if is_digit c then Some ([], InNumber FracDigits (add_frac_digit a c))
          else if c = CHR ''e'' \<or> c = CHR ''E'' then Some ([], InNumber AfterE a)
          else end_number a c
      | AfterE \<Rightarrow>
          if c = CHR ''+'' then Some ([], InNumber AfterESign a)
          else if c = CHR ''-'' then Some ([], InNumber AfterESign (a\<lparr>exp_negative := True\<rparr>))
          else if is_digit c then Some ([], InNumber ExpDigits (add_exp_digit a c))
          else None
      | AfterESign \<Rightarrow>
          if is_digit c then Some ([], InNumber ExpDigits (add_exp_digit a c)) else None
      | ExpDigits \<Rightarrow>
          if is_digit c then Some ([], InNumber ExpDigits (add_exp_digit a c))
          else end_number a c)"

definition lex_step :: "lex_state \<Rightarrow> char \<Rightarrow> (token list \<times> lex_state) option" where
  "lex_step st c =
     (case st of
        Start \<Rightarrow> lex_start c
      | InString raw \<Rightarrow>
          if c = dquote then
            (case json_unescape raw of
               None \<Rightarrow> None
             | Some s \<Rightarrow> Some ([TString s], Start))
          else if c = backslash then Some ([], InEscape (raw @ [c]))
          else Some ([], InString (raw @ [c]))
      | InEscape raw \<Rightarrow> Some ([], InString (raw @ [c]))
      | InLiteral rest t \<Rightarrow>
          (case rest of
             [] \<Rightarrow> None
           | x # xs \<Rightarrow>
               if c \<noteq> x then None
               else if xs = [] then Some ([t], Start)
               else Some ([], InLiteral xs t))
      | InNumber ph a \<Rightarrow> lex_number ph a c)"

definition lex_end :: "lex_state \<Rightarrow> token list option" where
  "lex_end st =
     (case st of
        Start \<Rightarrow> Some []
      | InNumber ph a \<Rightarrow>
          if ph = AfterZero \<or> ph = IntDigits \<or> ph = FracDigits \<or> ph = ExpDigits
          then Some [TNumber (number_value a)]
          else None
      | _ \<Rightarrow> None)"

fun lex :: "lex_state \<Rightarrow> string \<Rightarrow> token list option" where
  "lex st [] = lex_end st"
| "lex st (c # cs) =
     (case lex_step st c of
        None \<Rightarrow> None
      | Some (ts, st') \<Rightarrow>
          (case lex st' cs of
             None \<Rightarrow> None
           | Some rest \<Rightarrow> Some (ts @ rest)))"

text \<open>
  The parser keeps a stack of the arrays and objects that are still open, each with the
  elements or members completed so far (an object together with the key whose value is
  awaited), and what the grammar expects next.
\<close>

datatype frame =
    InArray "json list"
  | InObject "(string \<times> json) list" "string option"

datatype expect =
    Value | ValueOrClose | KeyOrClose | Key | ColonNext | CommaOrClose | Done json

definition deliver :: "json \<Rightarrow> frame list \<Rightarrow> (expect \<times> frame list) option" where
  "deliver v stack =
     (case stack of
        [] \<Rightarrow> Some (Done v, [])
      | InArray es # st \<Rightarrow> Some (CommaOrClose, InArray (es @ [v]) # st)
      | InObject ms (Some k) # st \<Rightarrow> Some (CommaOrClose, InObject (ms @ [(k, v)]) None # st)
      | InObject ms None # st \<Rightarrow> None)"

definition parse_value_token :: "token \<Rightarrow> frame list \<Rightarrow> (expect \<times> frame list) option" where
  "parse_value_token t stack =
     (case t of
        TString s \<Rightarrow> deliver (JString s) stack
      | TNumber r \<Rightarrow> deliver (JNumber r) stack
      | TTrue \<Rightarrow> deliver (JBool True) stack
      | TFalse \<Rightarrow> deliver (JBool False) stack
      | TNull \<Rightarrow> deliver JNull stack
      | LBracket \<Rightarrow> Some (ValueOrClose, InArray [] # stack)
      | LBrace \<Rightarrow> Some (KeyOrClose, InObject [] None # stack)
      | _ \<Rightarrow> None)"

definition close_array :: "frame list \<Rightarrow> (expect \<times> frame list) option" where
  "close_array stack =
     (case stack of
        InArray es # st \<Rightarrow> deliver (JArray es) st
      | _ \<Rightarrow> None)"

definition close_object :: "frame list \<Rightarrow> (expect \<times> frame list) option" where
  "close_object stack =
     (case stack of
        InObject ms None # st \<Rightarrow> deliver (JObject ms) st
      | _ \<Rightarrow> None)"

definition open_key :: "token \<Rightarrow> frame list \<Rightarrow> (expect \<times> frame list) option" where
  "open_key t stack =
     (case (t, stack) of
        (TString k, InObject ms None # st) \<Rightarrow> Some (ColonNext, InObject ms (Some k) # st)
      | _ \<Rightarrow> None)"

definition parse_step :: "expect \<Rightarrow> frame list \<Rightarrow> token \<Rightarrow> (expect \<times> frame list) option" where
  "parse_step e stack t =
     (case e of
        Value \<Rightarrow> parse_value_token t stack
      | ValueOrClose \<Rightarrow> if t = RBracket then close_array stack else parse_value_token t stack
      | KeyOrClose \<Rightarrow> if t = RBrace then close_object stack else open_key t stack
      | Key \<Rightarrow> open_key t stack
      | ColonNext \<Rightarrow> if t = Colon then Some (Value, stack) else None
      | CommaOrClose \<Rightarrow>
          if t = Comma then
            (case stack of
               InArray es # st \<Rightarrow> Some (Value, stack)
             | InObject ms k # st \<Rightarrow> Some (Key, stack)
             | [] \<Rightarrow> None)
          else if t = RBracket then close_array stack
          else if t = RBrace then close_object stack
          else None
      | Done v \<Rightarrow> None)"

fun parse_tokens :: "expect \<Rightarrow> frame list \<Rightarrow> token list \<Rightarrow> json option" where
  "parse_tokens e stack [] = (case e of Done v \<Rightarrow> Some v | _ \<Rightarrow> None)"
| "parse_tokens e stack (t # ts) =
     (case parse_step e stack t of
        None \<Rightarrow> None
      | Some (e', stack') \<Rightarrow> parse_tokens e' stack' ts)"

text \<open>\<^verbatim>\<open>JSON.parse(text)\<close>; \<open>None\<close> is a thrown \<^verbatim>\<open>SyntaxError\<close>.\<close>

definition JSON_parse :: "string \<Rightarrow> json option" where
  "JSON_parse text =
     (case lex Start text of
        None \<Rightarrow> None
      | Some ts \<Rightarrow> parse_tokens Value [] ts)"

section \<open>Serialising\<close>

text \<open>Decimal digits of a natural number: \<^verbatim>\<open>toString()\<close> of a non-negative bigint.\<close>

fun bigint_toString :: "nat \<Rightarrow> string" where
  "bigint_toString n =
     (if n < 10 then [char_of (48 + n)]
      else bigint_toString (n div 10) @ [char_of (48 + n mod 10)])"

declare bigint_toString.simps [simp del]

definition number_toString :: "int \<Rightarrow> string" where
  "number_toString i =
     (if i < 0 then CHR ''-'' # bigint_toString (nat (- i)) else bigint_toString (nat i))"

text \<open>
  \<^verbatim>\<open>String(n)\<close> for an integer \<open>n\<close> of magnitude below \<open>10^21\<close>, and
  \<^verbatim>\<open>JSON.stringify\<close> of a string.
\<close>

definition hex_digit :: "nat \<Rightarrow> char" where
  "hex_digit n = (if n < 10 then char_of (48 + n) else char_of (87 + n))"

definition escape_char :: "char \<Rightarrow> string" where
  "escape_char c =
     (if c = dquote then [backslash, dquote]
      else if c = backslash then [backslash, backslash]
      else if c = CHR 0x08 then [backslash, CHR ''b'']
      else if c = CHR 0x0C then [backslash, CHR ''f'']
      else if c = CHR 0x0A then [backslash, CHR ''n'']
      else if c = CHR 0x0D then [backslash, CHR ''r'']
      else if c = CHR 0x09 then [backslash, CHR ''t'']
      else if code_of c < 0x20 then
        [backslash, CHR ''u'', CHR ''0'', CHR ''0'',
         hex_digit (code_of c div 16), hex_digit (code_of c mod 16)]
      else [c])"

definition quote_json_string :: "string \<Rightarrow> string" where
  "quote_json_string s = dquote # concat (map escape_char s) @ [dquote]"

definition json_key :: "string \<Rightarrow> string" where
  "json_key k = dquote # k @ [dquote, CHR '':'']"

definition json_nullable :: "string option \<Rightarrow> string" where
  "json_nullable x = (case x of None \<Rightarrow> ''null'' | Some s \<Rightarrow> quote_json_string s)"

section \<open>Faults\<close>

text \<open>
  A thrown \<^verbatim>\<open>Error\<close> object: its name and its message. The messages of the
  \<^verbatim>\<open>TypeError\<close>s below are those of V8.
\<close>

datatype fault = Fault string string

fun fault_name :: "fault \<Rightarrow> string" where
  "fault_name (Fault n m) = n"

fun fault_message :: "fault \<Rightarrow> string" where
  "fault_message (Fault n m) = m"

text \<open>\<^verbatim>\<open>error.message || String(error)\<close>\<close>

definition error_text :: "fault \<Rightarrow> string" where
  "error_text e = (if fault_message e \<noteq> [] then fault_message e else fault_name e)"

definition cannot_read :: "string \<Rightarrow> string \<Rightarrow> fault" where
  "cannot_read base name =
     Fault ''TypeError''
       (''Cannot read properties of '' @ base @ '' (reading '' @ [CHR 0x27] @ name @ [CHR 0x27] @ '')'')"

text \<open>
  Reading a property of a parsed value: \<open>member v name\<close> is \<^verbatim>\<open>v[name]\<close> for a value
  that is not \<^verbatim>\<open>null\<close>, \<open>None\<close> standing for \<^verbatim>\<open>undefined\<close> (the names read by the
  program are not properties of any prototype); \<open>get_prop\<close> also covers the
  \<^verbatim>\<open>TypeError\<close> of reading a property of \<^verbatim>\<open>undefined\<close> or \<^verbatim>\<open>null\<close>.
\<close>

definition member :: "json \<Rightarrow> string \<Rightarrow> json option" where
  "member v name = (case v of JObject ms \<Rightarrow> map_of (rev ms) name | _ \<Rightarrow> None)"

definition get_prop :: "json option \<Rightarrow> string \<Rightarrow> fault + json option" where
  "get_prop v name =
     (case v of
        None \<Rightarrow> Inl (cannot_read ''undefined'' name)
      | Some JNull \<Rightarrow> Inl (cannot_read ''null'' name)
      | Some x \<Rightarrow> Inr (member x name))"

text \<open>
  \<^verbatim>\<open>!!v\<close>. A number is falsy when its double is zero, that is when the literal's
  magnitude is at most \<open>2^-1075\<close>.
\<close>

definition truthy :: "json option \<Rightarrow> bool" where
  "truthy v =
     (case v of
        None \<Rightarrow> False
      | Some JNull \<Rightarrow> False
      | Some (JBool b) \<Rightarrow> b
      | Some (JNumber r) \<Rightarrow> 1 < 2 ^ 1075 * \<bar>r\<bar>
      | Some (JString s) \<Rightarrow> s \<noteq> []
      | Some _ \<Rightarrow> True)"

section \<open>Protocol types\<close>

text \<open>
  The interfaces of \<^verbatim>\<open>x402-protocol-types\<close>. Optional fields are options. The
  reason of a failed verification is kept as a value with the data its message is
  built from, since the message interpolates values of any JSON type:

  \<^item> \<open>UnsupportedVersion v\<close>: \<^verbatim>\<open>Unsupported x402 version: ${v}\<close>
  \<^item> \<open>MissingFields\<close>: \<^verbatim>\<open>Missing paymentHeader or paymentRequirements\<close>
  \<^item> \<open>UnsupportedScheme s\<close>: \<^verbatim>\<open>Unsupported scheme: ${s}\<close>
  \<^item> \<open>InvalidNetwork n\<close>: \<^verbatim>\<open>Invalid Monad network: ${n}. Expected monad-testnet or monad-mainnet\<close>
  \<^item> \<open>InvalidJSON\<close>: \<^verbatim>\<open>Invalid JSON in payment payload\<close>
  \<^item> \<open>SchemeMismatch e g\<close>: \<^verbatim>\<open>Scheme mismatch: expected ${e}, got ${g}\<close>
  \<^item> \<open>NetworkMismatch e g\<close>: \<^verbatim>\<open>Network mismatch: expected ${e}, got ${g}\<close>
  \<^item> \<open>MissingSignedTransaction\<close>: \<^verbatim>\<open>Invalid payload: missing signedTransaction\<close>
  \<^item> \<open>ParseFailed m\<close>: \<^verbatim>\<open>Failed to parse transaction: ${m}\<close>
  \<^item> \<open>RecipientMismatch e g\<close>: \<^verbatim>\<open>Recipient mismatch: expected ${e}, got ${g}\<close>
  \<^item> \<open>AmountMismatch e g\<close>: \<^verbatim>\<open>Amount mismatch: expected ${e}, got ${g}\<close>
  \<^item> \<open>InvalidSender\<close>: \<^verbatim>\<open>Invalid sender address\<close>
  \<^item> \<open>Caught m\<close>: the text of a fault caught by the outer handler.

  The reason \<^verbatim>\<open>Invalid base64 encoding in X-PAYMENT header\<close> does not occur:
  \<^verbatim>\<open>Buffer.from\<close> does not throw on a string.
\<close>

record PaymentRequirements =
  scheme :: string
  network :: string
  maxAmountRequired :: string
  resource :: string
  description :: "string option"
  mimeType :: "string option"
  outputSchema :: "json option"
  payTo :: string
  maxTimeoutSeconds :: "nat option"
  extra :: "json option"

record PaymentRequiredResponse =
  x402Version :: int
  accepts :: "PaymentRequirements list"

record PayloadBody =
  signedTransaction :: string

record PaymentPayload =
  x402Version :: int
  scheme :: string
  network :: string
  payload :: PayloadBody

record VerifyRequest =
  x402Version :: int
  paymentHeader :: "string option"
  paymentRequirements :: "PaymentRequirements option"

type_synonym SettleRequest = VerifyRequest

datatype invalid_reason =
    UnsupportedVersion int
  | MissingFields
  | UnsupportedScheme string
  | InvalidNetwork string
  | InvalidJSON
  | SchemeMismatch string "json option"
  | NetworkMismatch string "json option"
  | MissingSignedTransaction
  | ParseFailed string
  | RecipientMismatch string "string option"
  | AmountMismatch string string
  | InvalidSender
  | Caught string

record VerifyResponse =
  isValid :: bool
  invalidReason :: "invalid_reason option"

record SettleResponse =
  success :: bool
  error :: "string option"
  txHash :: "string option"
  networkId :: "string option"

text \<open>\<^verbatim>\<open>NextResponse.json(body, { status })\<close>\<close>

record 'a json_response =
  status :: nat
  body :: 'a

definition X402_VERSION :: int where "X402_VERSION = 1"
definition MONAD_SCHEME :: string where "MONAD_SCHEME = ''evm-transfer''"
definition MONAD_MAINNET :: string where "MONAD_MAINNET = ''monad-mainnet''"
definition MONAD_TESTNET :: string where "MONAD_TESTNET = ''monad-testnet''"

section \<open>Header codec\<close>

text \<open>
  The client builds the payment header as
  \<^verbatim>\<open>Buffer.from(JSON.stringify(paymentPayload)).toString('base64')\<close>, where
  \<^verbatim>\<open>paymentPayload\<close> is the object \<open>payload_object p\<close>; the facilitator reads it back
  with \<^verbatim>\<open>JSON.parse(Buffer.from(paymentHeader, 'base64').toString('utf-8'))\<close>.
\<close>

definition payload_object :: "PaymentPayload \<Rightarrow> json" where
  "payload_object p =
     JObject
       [(''x402Version'', JNumber (of_int (PaymentPayload.x402Version p))),
        (''scheme'', JString (PaymentPayload.scheme p)),
        (''network'', JString (PaymentPayload.network p)),
        (''payload'', JObject [(''signedTransaction'', JString (signedTransaction (payload p)))])]"

definition stringify_payload :: "PaymentPayload \<Rightarrow> string" where
  "stringify_payload p =
     ''{'' @ json_key ''x402Version'' @ number_toString (PaymentPayload.x402Version p) @
     '','' @ json_key ''scheme'' @ quote_json_string (PaymentPayload.scheme p) @
     '','' @ json_key ''network'' @ quote_json_string (PaymentPayload.network p) @
     '','' @ json_key ''payload'' @
       ''{'' @ json_key ''signedTransaction'' @
          quote_json_string (signedTransaction (payload p)) @ ''}'' @
     ''}''"

definition encode_payment_header :: "PaymentPayload \<Rightarrow> string" where
  "encode_payment_header p = base64_encode (stringify_payload p)"

definition decode_payment_header :: "string \<Rightarrow> json option" where
  "decode_payment_header header = JSON_parse (utf8_toString (base64_decode header))"


text \<open>
  A payload is well formed when its version is a safe integer and its strings are
  texts.
\<close>

definition well_formed_payload :: "PaymentPayload \<Rightarrow> bool" where
  "well_formed_payload p =
     (\<bar>PaymentPayload.x402Version p\<bar> < 2 ^ 53
      \<and> well_formed_text (PaymentPayload.scheme p)
      \<and> well_formed_text (PaymentPayload.network p)
      \<and> well_formed_text (signedTransaction (payload p)))"

section \<open>Chain utilities\<close>

text \<open>
  \<^verbatim>\<open>monad-utils\<close>. The chain library is a parameter: \<open>Transaction_from\<close> is
  \<^verbatim>\<open>ethers.Transaction.from\<close> together with the getters read from its result,
  \<open>isAddress\<close> is \<^verbatim>\<open>ethers.isAddress\<close>, and the two provider calls answer for the
  node. Every call made to the node is recorded with its result.
\<close>

datatype network_type = testnet | mainnet

record MonadNetworkConfig =
  rpcUrl :: string
  chainId :: nat
  explorer :: string

record Transaction =
  tx_from :: "string option"
  tx_to :: "string option"
  tx_value :: nat
  tx_chainId :: nat

record TransactionReceipt =
  receipt_status :: "nat option"
  blockNumber :: nat

record ethers =
  Transaction_from :: "string \<Rightarrow> fault + Transaction"
  isAddress :: "string \<Rightarrow> bool"
  broadcastTransaction :: "MonadNetworkConfig \<Rightarrow> string \<Rightarrow> fault + string"
  provider_waitForTransaction ::
    "MonadNetworkConfig \<Rightarrow> string \<Rightarrow> nat \<Rightarrow> fault + TransactionReceipt option"

datatype chain_call =
    Broadcast MonadNetworkConfig string "fault + string"
  | WaitFor MonadNetworkConfig string nat "fault + TransactionReceipt option"

definition MONAD_TESTNET_RPC :: string where
  "MONAD_TESTNET_RPC = ''https://testnet-rpc.monad.xyz''"

definition MONAD_TESTNET_CHAIN_ID :: nat where
  "MONAD_TESTNET_CHAIN_ID = 10143"

definition MONAD_TESTNET_EXPLORER :: string where
  "MONAD_TESTNET_EXPLORER = ''https://testnet-explorer.monad.xyz''"

definition MONAD_NETWORKS :: "network_type \<rightharpoonup> MonadNetworkConfig" where
  "MONAD_NETWORKS =
     [testnet \<mapsto>
        \<lparr>rpcUrl = MONAD_TESTNET_RPC, chainId = MONAD_TESTNET_CHAIN_ID,
         explorer = MONAD_TESTNET_EXPLORER\<rparr>]"

definition network_name :: "network_type \<Rightarrow> string" where
  "network_name n = (case n of testnet \<Rightarrow> ''testnet'' | mainnet \<Rightarrow> ''mainnet'')"

definition getMonadNetwork :: "network_type \<Rightarrow> fault + MonadNetworkConfig" where
  "getMonadNetwork n =
     (case MONAD_NETWORKS n of
        None \<Rightarrow> Inl (Fault ''Error'' (''Unsupported Monad network: '' @ network_name n))
      | Some cfg \<Rightarrow> Inr cfg)"

definition submitTransaction ::
  "ethers \<Rightarrow> string \<Rightarrow> network_type \<Rightarrow> (fault + string) \<times> chain_call list" where
  "submitTransaction eth signedTx n =
     (case getMonadNetwork n of
        Inl e \<Rightarrow> (Inl e, [])
      | Inr cfg \<Rightarrow>
          (broadcastTransaction eth cfg signedTx,
           [Broadcast cfg signedTx (broadcastTransaction eth cfg signedTx)]))"

definition waitForTransaction ::
  "ethers \<Rightarrow> string \<Rightarrow> network_type \<Rightarrow> nat \<Rightarrow>
     (fault + TransactionReceipt option) \<times> chain_call list" where
  "waitForTransaction eth hash n confirmations =
     (case getMonadNetwork n of
        Inl e \<Rightarrow> (Inl e, [])
      | Inr cfg \<Rightarrow>
          (provider_waitForTransaction eth cfg hash confirmations,
           [WaitFor cfg hash confirmations
              (provider_waitForTransaction eth cfg hash confirmations)]))"

definition parseSignedTransaction :: "ethers \<Rightarrow> string \<Rightarrow> fault + Transaction" where
  "parseSignedTransaction eth signedTx = Transaction_from eth signedTx"

definition isValidAddress :: "ethers \<Rightarrow> string \<Rightarrow> bool" where
  "isValidAddress eth address = isAddress eth address"

section \<open>Facilitator: verify\<close>

text \<open>
  \<^verbatim>\<open>POST /api/facilitator/verify\<close>, in three parts: the checks of the request up to
  the decoded payload (\<open>verify_request\<close>, which hands the payload to
  \<open>verify_payload\<close>), and the checks of the parsed transaction
  (\<open>verify_transaction\<close>). A request without \<^verbatim>\<open>paymentRequirements\<close> faults at the
  first read of one of its fields, before any check.
\<close>

definition invalid :: "nat \<Rightarrow> invalid_reason \<Rightarrow> VerifyResponse json_response" where
  "invalid st reason = \<lparr>status = st, body = \<lparr>isValid = False, invalidReason = Some reason\<rparr>\<rparr>"

definition verify_caught :: "fault \<Rightarrow> VerifyResponse json_response" where
  "verify_caught e = invalid 500 (Caught (error_text e))"

definition not_a_function :: "string \<Rightarrow> fault" where
  "not_a_function what = Fault ''TypeError'' (what @ '' is not a function'')"

definition verify_payload ::
  "PaymentRequirements \<Rightarrow> json \<Rightarrow> VerifyResponse json_response + string" where
  "verify_payload requirements paymentPayload =
     (case get_prop (Some paymentPayload) ''x402Version'' of
        Inl e \<Rightarrow> Inl (verify_caught e)
      | Inr v \<Rightarrow>
          if member paymentPayload ''scheme''
               \<noteq> Some (JString (PaymentRequirements.scheme requirements))
          then Inl (invalid 200
                 (SchemeMismatch (PaymentRequirements.scheme requirements)
                    (member paymentPayload ''scheme'')))
          else if member paymentPayload ''network''
               \<noteq> Some (JString (PaymentRequirements.network requirements))
          then Inl (invalid 200
                 (NetworkMismatch (PaymentRequirements.network requirements)
                    (member paymentPayload ''network'')))
          else
            (case get_prop (member paymentPayload ''payload'') ''signedTransaction'' of
               Inl e \<Rightarrow> Inl (verify_caught e)
             | Inr signedTx \<Rightarrow>
                 if \<not> truthy signedTx then Inl (invalid 200 MissingSignedTransaction)
                 else
                   (case signedTx of
                      Some (JString s) \<Rightarrow> Inr s
                    | _ \<Rightarrow> Inl (verify_caught (not_a_function ''signedTransaction.substring'')))))"

definition verify_request ::
  "VerifyRequest \<Rightarrow> VerifyResponse json_response + (PaymentRequirements \<times> string)" where
  "verify_request request =
     (case paymentRequirements request of
        None \<Rightarrow> Inl (verify_caught (cannot_read ''undefined'' ''scheme''))
      | Some requirements \<Rightarrow>
          if VerifyRequest.x402Version request \<noteq> X402_VERSION
          then Inl (invalid 200 (UnsupportedVersion (VerifyRequest.x402Version request)))
          else
            (case paymentHeader request of
               None \<Rightarrow> Inl (invalid 400 MissingFields)
             | Some header \<Rightarrow>
                 if header = [] then Inl (invalid 400 MissingFields)
                 else if PaymentRequirements.scheme requirements \<noteq> MONAD_SCHEME
                 then Inl (invalid 200 (UnsupportedScheme (PaymentRequirements.scheme requirements)))
                 else if PaymentRequirements.network requirements = []
                       \<or> \<not> starts_with (PaymentRequirements.network requirements) ''monad-''
                 then Inl (invalid 200 (InvalidNetwork (PaymentRequirements.network requirements)))
                 else
                   (case decode_payment_header header of
                      None \<Rightarrow> Inl (invalid 200 InvalidJSON)
                    | Some paymentPayload \<Rightarrow>
                        (case verify_payload requirements paymentPayload of
                           Inl r \<Rightarrow> Inl r
                         | Inr signedTx \<Rightarrow> Inr (requirements, signedTx)))))"

definition verify_transaction ::
  "ethers \<Rightarrow> PaymentRequirements \<Rightarrow> string \<Rightarrow> VerifyResponse json_response" where
  "verify_transaction eth requirements signedTx =
     (case parseSignedTransaction eth signedTx of
        Inl parseError \<Rightarrow> invalid 200 (ParseFailed (fault_message parseError))
      | Inr tx \<Rightarrow>
          if map_option toLowerCase (tx_to tx) \<noteq> Some (toLowerCase (payTo requirements))
          then invalid 200 (RecipientMismatch (payTo requirements) (tx_to tx))
          else if bigint_toString (tx_value tx) \<noteq> maxAmountRequired requirements
          then invalid 200
                 (AmountMismatch (maxAmountRequired requirements) (bigint_toString (tx_value tx)))
          else if falsy_str (tx_from tx) \<or> \<not> isValidAddress eth (or_empty (tx_from tx))
          then invalid 200 InvalidSender
          else \<lparr>status = 200, body = \<lparr>isValid = True, invalidReason = None\<rparr>\<rparr>)"

definition verify :: "ethers \<Rightarrow> VerifyRequest \<Rightarrow> VerifyResponse json_response" where
  "verify eth request =
     (case verify_request request of
        Inl response \<Rightarrow> response
      | Inr (requirements, signedTx) \<Rightarrow> verify_transaction eth requirements signedTx)"


section \<open>Facilitator: settle\<close>

text \<open>
  \<^verbatim>\<open>POST /api/facilitator/settle\<close>: the checks of the request (\<open>settle_request\<close>,
  \<open>settle_payload\<close>), then submission and the wait for the receipt
  (\<open>settle_submit\<close>). \<open>settle_caught\<close> is the outer handler; a fault of
  \<^verbatim>\<open>submitTransaction\<close> is handled by the inner one.
\<close>

record settle_outcome =
  response :: "SettleResponse json_response"
  calls :: "chain_call list"

definition failure :: "nat \<Rightarrow> string \<Rightarrow> SettleResponse json_response" where
  "failure st msg =
     \<lparr>status = st, body = \<lparr>success = False, error = Some msg, txHash = None, networkId = None\<rparr>\<rparr>"

definition settle_caught :: "fault \<Rightarrow> SettleResponse json_response" where
  "settle_caught e =
     (if str_includes (fault_message e) ''SEQUENCE_NUMBER_TOO_OLD''
         \<or> str_includes (fault_message e) ''INVALID_SEQ_NUMBER''
         \<or> str_includes (fault_message e) ''already submitted''
      then failure 409 ''Transaction already used''
      else failure 500 (error_text e))"

definition settle_payload :: "json \<Rightarrow> SettleResponse json_response + string" where
  "settle_payload paymentPayload =
     (case get_prop (Some paymentPayload) ''scheme'' of
        Inl e \<Rightarrow> Inl (settle_caught e)
      | Inr v \<Rightarrow>
          (case member paymentPayload ''payload'' of
             None \<Rightarrow> Inl (settle_caught (Fault ''TypeError'' ''Cannot convert undefined or null to object''))
           | Some JNull \<Rightarrow> Inl (settle_caught (Fault ''TypeError'' ''Cannot convert undefined or null to object''))
           | Some pl \<Rightarrow>
               if \<not> truthy (member pl ''signedTransaction'')
               then Inl (failure 200 ''Invalid payload: missing signedTransaction'')
               else
                 (case member pl ''signedTransaction'' of
                    Some (JString s) \<Rightarrow> Inr s
                  | _ \<Rightarrow> Inl (settle_caught (not_a_function ''signedTransaction.substring'')))))"

definition settle_request ::
  "SettleRequest \<Rightarrow> SettleResponse json_response + (PaymentRequirements \<times> string)" where
  "settle_request request =
     (case paymentRequirements request of
        None \<Rightarrow> Inl (settle_caught (cannot_read ''undefined'' ''scheme''))
      | Some requirements \<Rightarrow>
          if VerifyRequest.x402Version request \<noteq> X402_VERSION
          then Inl (failure 200
                 (''Unsupported x402 version: '' @ number_toString (VerifyRequest.x402Version request)))
          else
            (case paymentHeader request of
               None \<Rightarrow> Inl (failure 400 ''Missing paymentHeader or paymentRequirements'')
             | Some header \<Rightarrow>
                 if header = [] then Inl (failure 400 ''Missing paymentHeader or paymentRequirements'')
                 else if PaymentRequirements.scheme requirements \<noteq> MONAD_SCHEME
                 then Inl (failure 200
                        (''Unsupported scheme: '' @ PaymentRequirements.scheme requirements))
                 else if PaymentRequirements.network requirements = []
                 then Inl (failure 400 ''Network not specified in payment requirements'')
                 else
                   (case decode_payment_header header of
                      None \<Rightarrow> Inl (failure 400 ''Invalid JSON'')
                    | Some paymentPayload \<Rightarrow>
                        (case settle_payload paymentPayload of
                           Inl r \<Rightarrow> Inl r
                         | Inr signedTx \<Rightarrow> Inr (requirements, signedTx)))))"

definition settle_submit :: "ethers \<Rightarrow> PaymentRequirements \<Rightarrow> string \<Rightarrow> settle_outcome" where
  "settle_submit eth requirements signedTx =
     (let net = PaymentRequirements.network requirements;
          networkType = (if net = MONAD_MAINNET then mainnet else testnet);
          submitted = submitTransaction eth signedTx networkType
      in case fst submitted of
           Inl submitError \<Rightarrow>
             \<lparr>response = failure 500 (error_text submitError), calls = snd submitted\<rparr>
         | Inr hash \<Rightarrow>
             (let waited = waitForTransaction eth hash networkType 1
              in \<lparr>response =
                     (case fst waited of
                        Inl e \<Rightarrow> settle_caught e
                      | Inr None \<Rightarrow>
                          \<lparr>status = 200,
                           body = \<lparr>success = False, error = Some ''Transaction receipt not found'',
                                   txHash = Some hash, networkId = Some net\<rparr>\<rparr>
                      | Inr (Some receipt) \<Rightarrow>
                          if receipt_status receipt \<noteq> Some 1
                          then \<lparr>status = 200,
                                body = \<lparr>success = False,
                                        error = Some ''Transaction failed on blockchain'',
                                        txHash = Some hash, networkId = Some net\<rparr>\<rparr>
                          else \<lparr>status = 200,
                                body = \<lparr>success = True, error = None,
                                        txHash = Some hash, networkId = Some net\<rparr>\<rparr>),
                   calls = snd submitted @ snd waited\<rparr>))"

definition settle :: "ethers \<Rightarrow> SettleRequest \<Rightarrow> settle_outcome" where
  "settle eth request =
     (case settle_request request of
        Inl r \<Rightarrow> \<lparr>response = r, calls = []\<rparr>
      | Inr (requirements, signedTx) \<Rightarrow> settle_submit eth requirements signedTx)"


section \<open>Payment middleware\<close>

text \<open>
  \<^verbatim>\<open>paymentMiddleware(recipientAddress, routes, facilitatorConfig)\<close> applied to a
  request. The two calls to the facilitator are a parameter, each giving the parsed
  reply with its timing header or the fault of the call. The body of an error reply is
  kept as a value:

  \<^item> \<open>RecipientNotConfigured\<close>: \<^verbatim>\<open>Server configuration error: Payment recipient not configured\<close>
  \<^item> \<open>UnsupportedPayloadVersion v\<close>: \<^verbatim>\<open>Unsupported x402 version: ${v}\<close>
  \<^item> \<open>UnsupportedPayloadScheme s\<close>: \<^verbatim>\<open>Unsupported payment scheme: ${s}\<close>
  \<^item> \<open>VerificationFailed r\<close>: \<^verbatim>\<open>Payment verification failed\<close> with message \<open>r\<close>
  \<^item> \<open>SettlementFailed e\<close>: \<^verbatim>\<open>Payment settlement failed\<close> with message \<open>e\<close>
  \<^item> \<open>ProcessingFailed f\<close>: \<^verbatim>\<open>Payment processing failed\<close> with the message of \<open>f\<close>.
\<close>

record RouteOptions =
  description :: "string option"
  mimeType :: "string option"
  outputSchema :: "json option"
  maxTimeoutSeconds :: "nat option"

record RouteConfig =
  price :: string
  network :: "string option"
  config :: "RouteOptions option"

record FacilitatorConfig =
  url :: string

record facilitator_client =
  post_verify :: "string \<Rightarrow> VerifyRequest \<Rightarrow> fault + VerifyResponse \<times> string option"
  post_settle :: "string \<Rightarrow> SettleRequest \<Rightarrow> fault + SettleResponse \<times> string option"

datatype processing_fault = Thrown string | JsonSyntaxError

datatype middleware_error =
    RecipientNotConfigured
  | UnsupportedPayloadVersion "json option"
  | UnsupportedPayloadScheme "json option"
  | VerificationFailed "invalid_reason option"
  | SettlementFailed "string option"
  | ProcessingFailed processing_fault

datatype middleware_body =
    Accepts PaymentRequiredResponse
  | Problem middleware_error

datatype middleware_result =
    Next
  | Json nat middleware_body
  | Forward "(string \<times> string) list"
  | Uncaught fault

definition route_network :: "string \<Rightarrow> string" where
  "route_network routeNetwork =
     (if routeNetwork = ''mainnet'' then MONAD_MAINNET
      else if routeNetwork = ''testnet'' then MONAD_TESTNET
      else if starts_with routeNetwork ''monad-'' then routeNetwork
      else ''monad-'' @ routeNetwork)"

definition stringify_payment_response :: "SettleResponse \<Rightarrow> string" where
  "stringify_payment_response settlement =
     ''{'' @ json_key ''settlement'' @
       ''{'' @ json_key ''success'' @ (if success settlement then ''true'' else ''false'') @
       '','' @ json_key ''error'' @ json_nullable (error settlement) @
       '','' @ json_key ''txHash'' @ json_nullable (txHash settlement) @
       '','' @ json_key ''networkId'' @ json_nullable (networkId settlement) @ ''}'' @
     ''}''"

definition time_header :: "string \<Rightarrow> string option \<Rightarrow> (string \<times> string) list" where
  "time_header name t = (case t of None \<Rightarrow> [] | Some v \<Rightarrow> if v = [] then [] else [(name, v)])"

definition process_payment ::
  "facilitator_client \<Rightarrow> string \<Rightarrow> PaymentRequirements \<Rightarrow> string \<Rightarrow> middleware_result" where
  "process_payment client facilitatorUrl requirements header =
     (case decode_payment_header header of
        None \<Rightarrow> Json 500 (Problem (ProcessingFailed JsonSyntaxError))
      | Some paymentPayload \<Rightarrow>
          (case get_prop (Some paymentPayload) ''x402Version'' of
             Inl e \<Rightarrow> Json 500 (Problem (ProcessingFailed (Thrown (fault_message e))))
           | Inr version \<Rightarrow>
               if version \<noteq> Some (JNumber (of_int X402_VERSION))
               then Json 400 (Problem (UnsupportedPayloadVersion version))
               else if member paymentPayload ''scheme'' \<noteq> Some (JString MONAD_SCHEME)
               then Json 400 (Problem (UnsupportedPayloadScheme (member paymentPayload ''scheme'')))
               else
                 (case post_verify client (facilitatorUrl @ ''/verify'')
                         \<lparr>x402Version = X402_VERSION, paymentHeader = Some header,
                          paymentRequirements = Some requirements\<rparr> of
                    Inl e \<Rightarrow> Json 500 (Problem (ProcessingFailed (Thrown (fault_message e))))
                  | Inr (verification, verificationTime) \<Rightarrow>
                      if \<not> isValid verification
                      then Json 403 (Problem (VerificationFailed (invalidReason verification)))
                      else
                        (case post_settle client (facilitatorUrl @ ''/settle'')
                                \<lparr>x402Version = X402_VERSION, paymentHeader = Some header,
                                 paymentRequirements = Some requirements\<rparr> of
                           Inl e \<Rightarrow> Json 500 (Problem (ProcessingFailed (Thrown (fault_message e))))
                         | Inr (settlement, settlementTime) \<Rightarrow>
                             if \<not> success settlement
                             then Json 402 (Problem (SettlementFailed (error settlement)))
                             else Forward
                                    ((''X-Payment-Response'',
                                      base64_encode (stringify_payment_response settlement))
                                     # time_header ''X-Verification-Time'' verificationTime
                                     @ time_header ''X-Settlement-Time'' settlementTime)))))"

definition paymentMiddleware ::
  "facilitator_client \<Rightarrow> string \<Rightarrow> (string \<rightharpoonup> RouteConfig) \<Rightarrow> FacilitatorConfig \<Rightarrow>
     NextRequest \<Rightarrow> middleware_result" where
  "paymentMiddleware client recipientAddress routes facilitatorConfig request =
     (case routes (pathname request) of
        None \<Rightarrow> Next
      | Some routeConfig \<Rightarrow>
          (case RouteConfig.network routeConfig of
             None \<Rightarrow> Uncaught (cannot_read ''undefined'' ''startsWith'')
           | Some routeNetwork \<Rightarrow>
               if recipientAddress = [] then Json 500 (Problem RecipientNotConfigured)
               else
                 (let requirements =
                        \<lparr>PaymentRequirements.scheme = MONAD_SCHEME,
                         network = route_network routeNetwork,
                         maxAmountRequired = price routeConfig,
                         resource = NextRequest.url request,
                         description = Option.bind (config routeConfig) RouteOptions.description,
                         mimeType = Option.bind (config routeConfig) RouteOptions.mimeType,
                         outputSchema = Option.bind (config routeConfig) RouteOptions.outputSchema,
                         payTo = recipientAddress,
                         maxTimeoutSeconds =
                           Option.bind (config routeConfig) RouteOptions.maxTimeoutSeconds,
                         extra = None\<rparr>
                  in if falsy_str (headers_get request ''X-PAYMENT'')
                     then Json 402
                            (Accepts \<lparr>PaymentRequiredResponse.x402Version = X402_VERSION,
                                      accepts = [requirements]\<rparr>)
                     else process_payment client (FacilitatorConfig.url facilitatorConfig)
                            requirements (or_empty (headers_get request ''X-PAYMENT'')))))"

section \<open>Example inputs\<close>

text \<open>
  Concrete requests and collaborators used where a property is evaluated on an input.
  \<open>header_matching\<close> is the payment header of
  \<^verbatim>\<open>{"x402Version":1,"scheme":"evm-transfer","network":"monad-testnet","payload":{"signedTransaction":"0x02f86b"}}\<close>
  and \<open>header_other\<close> that of
  \<^verbatim>\<open>{"x402Version":1,"scheme":"exact","network":"monad-mainnet","payload":{"signedTransaction":"0x02f86b"}}\<close>.
  \<open>node_with sent receipt\<close> is a node that answers every broadcast with \<open>sent\<close> and
  every wait with \<open>receipt\<close>; \<open>parser_with tx\<close> is a library that parses every signed
  transaction to \<open>tx\<close>; \<open>weather_routes net\<close> gates the path of \<^verbatim>\<open>middleware.ts\<close> at its
  price, with \<open>net\<close> as the configured network.
\<close>

definition header_matching :: string where
  "header_matching = ''eyJ4NDAyVmVyc2lvbiI6MSwic2NoZW1lIjoiZXZtLXRyYW5zZmVyIiwibmV0d29yayI6Im1vbmFkLXRlc3RuZXQiLCJwYXlsb2FkIjp7InNpZ25lZFRyYW5zYWN0aW9uIjoiMHgwMmY4NmIifX0=''"

definition header_other :: string where
  "header_other = ''eyJ4NDAyVmVyc2lvbiI6MSwic2NoZW1lIjoiZXhhY3QiLCJuZXR3b3JrIjoibW9uYWQtbWFpbm5ldCIsInBheWxvYWQiOnsic2lnbmVkVHJhbnNhY3Rpb24iOiIweDAyZjg2YiJ9fQ==''"

definition requirements_testnet :: PaymentRequirements where
  "requirements_testnet =
     \<lparr>PaymentRequirements.scheme = ''evm-transfer'',
      network = ''monad-testnet'',
      maxAmountRequired = ''1000000000000000'',
      resource = ''https://example.org/api/protected/weather'',
      description = None, mimeType = None, outputSchema = None,
      payTo = ''0xAbCdEf0123456789aBcDeF0123456789AbCdEf01'',
      maxTimeoutSeconds = None, extra = None\<rparr>"

definition request_with :: "string \<Rightarrow> VerifyRequest" where
  "request_with header =
     \<lparr>VerifyRequest.x402Version = 1, paymentHeader = Some header,
      paymentRequirements = Some requirements_testnet\<rparr>"

definition testnet_config :: MonadNetworkConfig where
  "testnet_config =
     \<lparr>rpcUrl = ''https://testnet-rpc.monad.xyz'', chainId = 10143,
      explorer = ''https://testnet-explorer.monad.xyz''\<rparr>"

definition node_with ::
  "(fault + string) \<Rightarrow> (fault + TransactionReceipt option) \<Rightarrow> ethers" where
  "node_with sent receipt =
     \<lparr>Transaction_from = (\<lambda>s. Inl (Fault ''Error'' ''invalid transaction'')),
      isAddress = (\<lambda>a. False),
      broadcastTransaction = (\<lambda>cfg s. sent),
      provider_waitForTransaction = (\<lambda>cfg h n. receipt)\<rparr>"

definition parser_with :: "Transaction \<Rightarrow> ethers" where
  "parser_with tx =
     \<lparr>Transaction_from = (\<lambda>s. Inr tx),
      isAddress = (\<lambda>a. length a = 42),
      broadcastTransaction = (\<lambda>cfg s. Inl (Fault ''Error'' ''offline'')),
      provider_waitForTransaction = (\<lambda>cfg h n. Inl (Fault ''Error'' ''offline''))\<rparr>"

definition transfer :: "string \<Rightarrow> nat \<Rightarrow> Transaction" where
  "transfer recipient amount =
     \<lparr>tx_from = Some ''0x2222222222222222222222222222222222222222'',
      tx_to = Some recipient, tx_value = amount, tx_chainId = 10143\<rparr>"

definition weather_routes :: "string option \<Rightarrow> (string \<rightharpoonup> RouteConfig)" where
  "weather_routes net =
     [''/api/protected/weather'' \<mapsto>
        \<lparr>price = ''1000000000000000'', network = net, config = None\<rparr>]"

definition facilitator_offline :: facilitator_client where
  "facilitator_offline =
     \<lparr>post_verify = (\<lambda>u r. Inl (Fault ''TypeError'' ''fetch failed'')),
      post_settle = (\<lambda>u r. Inl (Fault ''TypeError'' ''fetch failed''))\<rparr>"

definition weather_request :: NextRequest where
  "weather_request =
     \<lparr>NextRequest.url = ''https://example.org/api/protected/weather'',
      pathname = ''/api/protected/weather'',
      headers = [''accept'' \<mapsto> ''application/json'']\<rparr>"

definition payload_example :: PaymentPayload where
  "payload_example =
     \<lparr>PaymentPayload.x402Version = 1, scheme = ''evm-transfer'', network = ''monad-testnet'',
      payload = \<lparr>signedTransaction = ''0x02f86b''\<rparr>\<rparr>"

section \<open>Properties of the string primitives\<close>

lemma code_of_char_of: "n < 256 \<Longrightarrow> code_of (char_of n) = n"
  by (simp add: code_of_def)

lemma code_of_less: "code_of c < 256"
  by (simp add: code_of_def)

lemma char_of_code_of: "char_of (code_of c) = c"
  by (simp add: code_of_def)

lemma ascii_upper_lower: "ascii_upper (ascii_lower c) = ascii_upper c"
  by (auto simp: ascii_upper_def ascii_lower_def code_of_char_of char_of_code_of)

lemma starts_with_iff: "starts_with s p \<longleftrightarrow> (\<exists>post. s = p @ post)"
  by (induction s p rule: starts_with.induct) auto

lemma str_includes_iff: "str_includes s p \<longleftrightarrow> (\<exists>pre post. s = pre @ p @ post)"
proof (induction s)
  case Nil
  then show ?case by auto
next
  case (Cons c cs)
  have "(\<exists>pre post. c # cs = pre @ p @ post) \<longleftrightarrow>
        (\<exists>post. c # cs = p @ post) \<or> (\<exists>pre post. cs = pre @ p @ post)"
    (is "?L \<longleftrightarrow> ?A \<or> ?B")
  proof
    assume ?L
    then obtain pre post where e: "c # cs = pre @ p @ post" by blast
    show "?A \<or> ?B"
    proof (cases pre)
      case Nil
      with e show ?thesis by auto
    next
      case (Cons a pre')
      with e have "cs = pre' @ p @ post" by simp
      then show ?thesis by blast
    qed
  next
    assume "?A \<or> ?B"
    then show ?L
    proof
      assume ?A
      then obtain post where "c # cs = [] @ p @ post" by auto
      then show ?L by blast
    next
      assume ?B
      then obtain pre post where "cs = pre @ p @ post" by blast
      then have "c # cs = (c # pre) @ p @ post" by simp
      then show ?L by blast
    qed
  qed
  with Cons show ?case by (simp add: starts_with_iff)
qed

lemma regex_test_i_substring:
  assumes "s = pre @ v @ post" and "toLowerCase v = toLowerCase pattern"
  shows "regex_test_i pattern s"
proof -
  have "map ascii_upper v = map ascii_upper (toLowerCase v)"
    by (simp add: toLowerCase_def ascii_upper_lower)
  also have "\<dots> = map ascii_upper pattern"
    by (simp add: assms(2)) (simp add: toLowerCase_def ascii_upper_lower)
  finally have "map ascii_upper s =
      map ascii_upper pre @ map ascii_upper pattern @ map ascii_upper post"
    by (simp add: assms(1))
  then show ?thesis
    unfolding regex_test_i_def str_includes_iff by blast
qed

section \<open>Properties of the classifier\<close>

text \<open>
  C8. Every User-Agent string that contains \<open>bot\<close>, \<open>crawler\<close> or \<open>spider\<close> as a
  substring, in any mixture of upper and lower case, is classified as a bot by
  \<open>isBot\<close>, with or without the request argument.
\<close>

theorem isBot_generic_token:
  assumes "userAgent = pre @ v @ post"
    and "toLowerCase v \<in> {''bot'', ''crawler'', ''spider''}"
  shows "isBot userAgent request"
proof -
  obtain w where w: "w \<in> {''bot'', ''crawler'', ''spider''}" "toLowerCase v = w"
    using assms(2) by blast
  have low: "toLowerCase w = w"
    using w(1) by (auto simp: toLowerCase_def ascii_lower_def code_of_def)
  have "regex_test_i w userAgent"
    by (rule regex_test_i_substring [OF assms(1)]) (simp add: w(2) low)
  moreover have "w \<in> set BOT_PATTERNS"
    using w(1) by (auto simp: BOT_PATTERNS_def)
  ultimately have "list_ex (\<lambda>pattern. regex_test_i pattern userAgent) BOT_PATTERNS"
    unfolding list_ex_iff by blast
  then show ?thesis by (simp add: isBot_def)
qed

theorem isBot_generic_token_witness:
  "''Mozilla/5.0 (compatible; AcmeSpIdEr/1.0)'' = ''Mozilla/5.0 (compatible; Acme'' @ ''SpIdEr'' @ ''/1.0)''
   \<and> toLowerCase ''SpIdEr'' \<in> {''bot'', ''crawler'', ''spider''}
   \<and> isBot ''Mozilla/5.0 (compatible; AcmeSpIdEr/1.0)'' None"
proof -
  have a: "''Mozilla/5.0 (compatible; AcmeSpIdEr/1.0)'' = ''Mozilla/5.0 (compatible; Acme'' @ ''SpIdEr'' @ ''/1.0)''"
    by simp
  have b: "toLowerCase ''SpIdEr'' \<in> {''bot'', ''crawler'', ''spider''}"
    by (simp add: toLowerCase_def ascii_lower_def code_of_def char_of_def bit_0)
  show ?thesis
    using a b isBot_generic_token [OF a b, of None] by blast
qed

text \<open>
  C9. On the empty User-Agent string (the value the callers pass when the header is
  missing) \<open>isBot\<close> answers true, with or without the request argument, and
  \<open>isAICrawler\<close> answers false.
\<close>

theorem empty_user_agent:
  "isBot [] None \<and> isBot [] (Some request) \<and> \<not> isAICrawler []"
  by (simp add: isBot_def isAICrawler_def)

text \<open>
  C10. Supplying the request argument to \<open>isBot\<close> is monotone: a User-Agent that is
  classified as a bot without the request is classified as a bot with any request.
\<close>

theorem isBot_request_monotone:
  assumes "isBot userAgent None"
  shows "isBot userAgent (Some request)"
  using assms by (simp add: isBot_def split: if_splits)

theorem isBot_request_monotone_witness:
  "isBot ''curl/7.68.0'' None
   \<and> isBot ''curl/7.68.0'' (Some \<lparr>NextRequest.url = ''http://localhost/'', pathname = ''/'', headers = Map.empty\<rparr>)"
proof -
  have "regex_test_i ''curl'' ''curl/7.68.0''"
    by (simp add: regex_test_i_def ascii_upper_def code_of_def char_of_def bit_0)
  then have a: "isBot ''curl/7.68.0'' None"
    by (simp add: isBot_def BOT_PATTERNS_def)
  show ?thesis
    using a isBot_request_monotone [OF a] by blast
qed

section \<open>Evaluation on concrete inputs\<close>

lemmas char_eval = code_of_def char_of_def bit_0

lemmas to_lower_eval = toLowerCase_def ascii_lower_def char_eval

lemmas json_eval = JSON_parse_def lex_step_def lex_start_def lex_end_def lex_number_def
  end_number_def parse_step_def parse_value_token_def deliver_def close_array_def
  close_object_def open_key_def is_ws_def is_digit_def digit_val_def dquote_def backslash_def
  new_number_def add_int_digit_def add_frac_digit_def add_exp_digit_def number_value_def
  hex4_def hex_val_def simple_escape_def low_surrogate_escape_def utf8_encode_unit_def

lemmas decode_eval = decode_payment_header_def base64_decode_def unbase64_def
  utf8_toString_def utf8_step_def utf8_lead_def

lemmas example_defs = requirements_testnet_def request_with_def testnet_config_def
  node_with_def parser_with_def

lemmas submit_eval = settle_def settle_submit_def submitTransaction_def waitForTransaction_def
  getMonadNetwork_def MONAD_NETWORKS_def MONAD_TESTNET_RPC_def MONAD_TESTNET_CHAIN_ID_def
  MONAD_TESTNET_EXPLORER_def MONAD_MAINNET_def settle_caught_def failure_def error_text_def
  Let_def

lemma decode_header_matching:
  "decode_payment_header header_matching =
     Some (JObject [(''x402Version'', JNumber 1), (''scheme'', JString ''evm-transfer''),
       (''network'', JString ''monad-testnet''),
       (''payload'', JObject [(''signedTransaction'', JString ''0x02f86b'')])])"
  by (simp add: header_matching_def decode_eval json_eval char_eval)


lemma headers_nonempty: "header_matching \<noteq> []" "header_other \<noteq> []"
  by (simp_all add: header_matching_def header_other_def)

lemma settle_request_matching:
  "settle_request (request_with header_matching) = Inr (requirements_testnet, ''0x02f86b'')"
  by (simp add: settle_request_def decode_header_matching settle_payload_def get_prop_def
      member_def truthy_def example_defs X402_VERSION_def MONAD_SCHEME_def headers_nonempty)


lemma verify_request_matching:
  "verify_request (request_with header_matching) = Inr (requirements_testnet, ''0x02f86b'')"
  by (simp add: verify_request_def decode_header_matching verify_payload_def get_prop_def
      member_def truthy_def example_defs X402_VERSION_def MONAD_SCHEME_def headers_nonempty)

section \<open>Properties of settle\<close>

lemma settle_request_InrD:
  assumes "settle_request request = Inr (requirements, signedTx)"
  shows "paymentRequirements request = Some requirements
    \<and> VerifyRequest.x402Version request = X402_VERSION
    \<and> PaymentRequirements.scheme requirements = MONAD_SCHEME
    \<and> PaymentRequirements.network requirements \<noteq> []
    \<and> (\<exists>header paymentPayload pl.
          paymentHeader request = Some header \<and> header \<noteq> []
        \<and> decode_payment_header header = Some paymentPayload
        \<and> member paymentPayload ''payload'' = Some pl
        \<and> member pl ''signedTransaction'' = Some (JString signedTx)
        \<and> signedTx \<noteq> [])"
  using assms
  by (auto simp: settle_request_def settle_payload_def truthy_def
      split: option.splits if_splits sum.splits json.splits)





text \<open>
  C2. A fault of the broadcast is handled by the inner handler of settle, which
  answers 500 with the message of the fault; the classification of replay messages as
  409 \<open>Transaction already used\<close> belongs to the outer handler and is not reached. Here
  the node rejects the broadcast with a message containing \<open>already submitted\<close>.
\<close>

theorem settle_replay_at_submission:
  "str_includes ''transaction already submitted'' ''already submitted''
   \<and> settle (node_with (Inl (Fault ''Error'' ''transaction already submitted'')) (Inr None))
         (request_with header_matching) =
       \<lparr>response =
          \<lparr>status = 500,
           body = \<lparr>success = False, error = Some ''transaction already submitted'',
                   txHash = None, networkId = None\<rparr>\<rparr>,
        calls =
          [Broadcast testnet_config ''0x02f86b''
             (Inl (Fault ''Error'' ''transaction already submitted''))]\<rparr>"
  by (simp add: settle_def settle_request_matching) (simp add: example_defs submit_eval)

text \<open>
  C6. When settle has broadcast a transaction, the node has answered with a hash, and
  the wait for the receipt has returned no receipt, the result of settle is a failure
  whose \<open>txHash\<close> is that hash.
\<close>

theorem settle_missing_receipt:
  assumes "calls (settle eth request) =
      [Broadcast cfg signedTx (Inr hash), WaitFor cfg' hash' n (Inr None)]"
  shows "hash' = hash
    \<and> response (settle eth request) =
        \<lparr>status = 200,
         body = \<lparr>success = False, error = Some ''Transaction receipt not found'',
                 txHash = Some hash,
                 networkId = map_option PaymentRequirements.network (paymentRequirements request)\<rparr>\<rparr>"
proof (cases "settle_request request")
  case (Inl r)
  with assms show ?thesis by (simp add: settle_def)
next
  case (Inr p)
  obtain requirements stx where p: "p = (requirements, stx)" by (cases p)
  from settle_request_InrD [OF Inr [unfolded p]]
  have rq: "paymentRequirements request = Some requirements" by blast
  from assms Inr p rq show ?thesis
    by (auto simp: settle_def settle_submit_def submitTransaction_def waitForTransaction_def
        Let_def split: sum.splits option.splits if_splits)
qed

theorem settle_missing_receipt_witness:
  "calls (settle (node_with (Inr ''0xbeef'') (Inr None)) (request_with header_matching)) =
      [Broadcast testnet_config ''0x02f86b'' (Inr ''0xbeef''),
       WaitFor testnet_config ''0xbeef'' 1 (Inr None)]
   \<and> response (settle (node_with (Inr ''0xbeef'') (Inr None)) (request_with header_matching)) =
        \<lparr>status = 200,
         body = \<lparr>success = False, error = Some ''Transaction receipt not found'',
                 txHash = Some ''0xbeef'', networkId = Some ''monad-testnet''\<rparr>\<rparr>"
proof -
  have c: "calls (settle (node_with (Inr ''0xbeef'') (Inr None)) (request_with header_matching)) =
      [Broadcast testnet_config ''0x02f86b'' (Inr ''0xbeef''),
       WaitFor testnet_config ''0xbeef'' 1 (Inr None)]"
    by (simp add: settle_def settle_request_matching) (simp add: example_defs submit_eval)
  from settle_missing_receipt [OF c] c show ?thesis
    by (simp add: example_defs)
qed

section \<open>Properties of verify\<close>

lemma verify_after_parse:
  assumes "verify_request request = Inr (requirements, signedTx)"
    and "parseSignedTransaction eth signedTx = Inr tx"
  shows "verify eth request =
     (if map_option toLowerCase (tx_to tx) \<noteq> Some (toLowerCase (payTo requirements))
      then invalid 200 (RecipientMismatch (payTo requirements) (tx_to tx))
      else if bigint_toString (tx_value tx) \<noteq> maxAmountRequired requirements
      then invalid 200
             (AmountMismatch (maxAmountRequired requirements) (bigint_toString (tx_value tx)))
      else if falsy_str (tx_from tx) \<or> \<not> isValidAddress eth (or_empty (tx_from tx))
      then invalid 200 InvalidSender
      else \<lparr>status = 200, body = \<lparr>isValid = True, invalidReason = None\<rparr>\<rparr>)"
  using assms by (simp add: verify_def verify_transaction_def)



text \<open>
  C3, as stated, fails: the recipient is checked before the amount, so a transaction
  whose recipient and amount both differ is rejected with the recipient-mismatch
  reason. Here the amount is one unit below the required one.
\<close>

theorem verify_amount_counterexample:
  "verify_request (request_with header_matching) = Inr (requirements_testnet, ''0x02f86b'')
   \<and> parseSignedTransaction
         (parser_with (transfer ''0x3333333333333333333333333333333333333333'' 999999999999999))
         ''0x02f86b'' =
       Inr (transfer ''0x3333333333333333333333333333333333333333'' 999999999999999)
   \<and> bigint_toString 999999999999999 \<noteq> maxAmountRequired requirements_testnet
   \<and> verify
         (parser_with (transfer ''0x3333333333333333333333333333333333333333'' 999999999999999))
         (request_with header_matching) =
       invalid 200
         (RecipientMismatch ''0xAbCdEf0123456789aBcDeF0123456789AbCdEf01''
            (Some ''0x3333333333333333333333333333333333333333''))"
proof -
  let ?tx = "transfer ''0x3333333333333333333333333333333333333333'' 999999999999999"
  have p: "parseSignedTransaction (parser_with ?tx) ''0x02f86b'' = Inr ?tx"
    by (simp add: parseSignedTransaction_def parser_with_def)
  have a: "bigint_toString 999999999999999 \<noteq> maxAmountRequired requirements_testnet"
    by (simp add: requirements_testnet_def bigint_toString.simps char_eval)
  have "verify (parser_with ?tx) (request_with header_matching) =
       invalid 200
         (RecipientMismatch ''0xAbCdEf0123456789aBcDeF0123456789AbCdEf01''
            (Some ''0x3333333333333333333333333333333333333333''))"
    by (simp add: verify_after_parse [OF verify_request_matching p])
       (simp add: transfer_def requirements_testnet_def to_lower_eval)
  with verify_request_matching p a show ?thesis by simp
qed

text \<open>
  C3, amended. For a verify request that reaches the parsing of the signed transaction,
  and whose transaction parses, if the decimal form of the transaction value is not
  exactly \<open>maxAmountRequired\<close> then the result is invalid; when the recipient matches
  \<open>payTo\<close>, the reason is the amount mismatch.
\<close>

theorem verify_amount_check:
  assumes "verify_request request = Inr (requirements, signedTx)"
    and "parseSignedTransaction eth signedTx = Inr tx"
    and "bigint_toString (tx_value tx) \<noteq> maxAmountRequired requirements"
  shows "\<not> isValid (body (verify eth request))
    \<and> (map_option toLowerCase (tx_to tx) = Some (toLowerCase (payTo requirements)) \<longrightarrow>
          verify eth request =
            invalid 200
              (AmountMismatch (maxAmountRequired requirements) (bigint_toString (tx_value tx))))"
  using assms(3) by (simp add: verify_after_parse [OF assms(1,2)] invalid_def)

theorem verify_amount_check_witness:
  "verify_request (request_with header_matching) = Inr (requirements_testnet, ''0x02f86b'')
   \<and> bigint_toString 1000000000000001 \<noteq> maxAmountRequired requirements_testnet
   \<and> map_option toLowerCase (Some ''0xabcdef0123456789abcdef0123456789abcdef01'') =
       Some (toLowerCase (payTo requirements_testnet))
   \<and> verify
         (parser_with (transfer ''0xabcdef0123456789abcdef0123456789abcdef01'' 1000000000000001))
         (request_with header_matching) =
       invalid 200 (AmountMismatch ''1000000000000000'' ''1000000000000001'')"
proof -
  let ?tx = "transfer ''0xabcdef0123456789abcdef0123456789abcdef01'' 1000000000000001"
  have p: "parseSignedTransaction (parser_with ?tx) ''0x02f86b'' = Inr ?tx"
    by (simp add: parseSignedTransaction_def parser_with_def)
  have s: "bigint_toString 1000000000000001 = ''1000000000000001''"
    by (simp add: bigint_toString.simps char_eval)
  have a: "bigint_toString (tx_value ?tx) \<noteq> maxAmountRequired requirements_testnet"
    by (simp add: transfer_def s requirements_testnet_def)
  have same: "map_option toLowerCase (tx_to ?tx) = Some (toLowerCase (payTo requirements_testnet))"
    by (simp add: transfer_def requirements_testnet_def to_lower_eval)
  from verify_amount_check [OF verify_request_matching p a] same
  have "verify (parser_with ?tx) (request_with header_matching) =
      invalid 200 (AmountMismatch (maxAmountRequired requirements_testnet)
        (bigint_toString (tx_value ?tx)))"
    by blast
  with verify_request_matching a same show ?thesis
    by (simp add: transfer_def s requirements_testnet_def)
qed

section \<open>Properties of the payment middleware\<close>

text \<open>
  C5, as stated, fails. The network of a route configuration is optional; for a route
  configured without it the middleware faults while it maps the network name, before
  it looks at the recipient address or at the payment header, and no 402 is produced.
\<close>

theorem paymentMiddleware_without_network:
  "weather_routes None (pathname weather_request) =
     Some \<lparr>price = ''1000000000000000'', network = None, config = None\<rparr>
   \<and> headers_get weather_request ''X-PAYMENT'' = None
   \<and> paymentMiddleware facilitator_offline ''0xAbCdEf0123456789aBcDeF0123456789AbCdEf01''
        (weather_routes None) \<lparr>FacilitatorConfig.url = ''https://example.org/api/facilitator''\<rparr>
        weather_request =
       Uncaught
         (Fault ''TypeError''
            (''Cannot read properties of undefined (reading '' @ [CHR 0x27] @ ''startsWith''
               @ [CHR 0x27] @ '')''))"
  by (simp add: paymentMiddleware_def weather_request_def weather_routes_def headers_get_def
      cannot_read_def to_lower_eval)

text \<open>
  C5, amended. For every request to a route present in the gating configuration whose
  configuration names a network, that carries no \<^verbatim>\<open>X-PAYMENT\<close> header, and with a
  recipient address configured, the middleware answers 402 with a body whose
  \<^verbatim>\<open>accepts\<close> holds one entry, and the \<^verbatim>\<open>maxAmountRequired\<close> of that entry is the price
  configured for the route.
\<close>

theorem paymentMiddleware_challenge:
  assumes "routes (pathname request) = Some routeConfig"
    and "RouteConfig.network routeConfig = Some routeNetwork"
    and "headers_get request ''X-PAYMENT'' = None"
    and "recipientAddress \<noteq> []"
  shows "\<exists>requirements.
      paymentMiddleware client recipientAddress routes facilitatorConfig request =
        Json 402
          (Accepts \<lparr>PaymentRequiredResponse.x402Version = X402_VERSION,
                    accepts = [requirements]\<rparr>)
    \<and> maxAmountRequired requirements = price routeConfig"
  using assms by (simp add: paymentMiddleware_def falsy_str_def Let_def)

theorem paymentMiddleware_challenge_witness:
  "weather_routes (Some ''testnet'') (pathname weather_request) =
     Some \<lparr>price = ''1000000000000000'', network = Some ''testnet'', config = None\<rparr>
   \<and> headers_get weather_request ''X-PAYMENT'' = None
   \<and> (\<exists>requirements.
        paymentMiddleware facilitator_offline ''0xAbCdEf0123456789aBcDeF0123456789AbCdEf01''
          (weather_routes (Some ''testnet''))
          \<lparr>FacilitatorConfig.url = ''https://example.org/api/facilitator''\<rparr> weather_request =
          Json 402
            (Accepts \<lparr>PaymentRequiredResponse.x402Version = 1, accepts = [requirements]\<rparr>)
      \<and> maxAmountRequired requirements = ''1000000000000000'')"
proof -
  let ?route = "\<lparr>price = ''1000000000000000'', network = Some ''testnet'', config = None\<rparr>"
  have r: "weather_routes (Some ''testnet'') (pathname weather_request) = Some ?route"
    by (simp add: weather_routes_def weather_request_def)
  have n: "RouteConfig.network ?route = Some ''testnet''"
    by simp
  have h: "headers_get weather_request ''X-PAYMENT'' = None"
    by (simp add: weather_request_def headers_get_def to_lower_eval)
  have a: "''0xAbCdEf0123456789aBcDeF0123456789AbCdEf01'' \<noteq> []"
    by simp
  from paymentMiddleware_challenge
      [where routes = "weather_routes (Some ''testnet'')" and request = weather_request,
        OF r n h a] r h
  show ?thesis
    by (simp add: X402_VERSION_def)
qed

section \<open>Round trip of the payment header\<close>

subsection \<open>Base64\<close>

lemma unbase64_b64_char: "k < 64 \<Longrightarrow> unbase64 (b64_char k) = Some k"
  by (auto simp: unbase64_def b64_char_def code_of_char_of Let_def code_of_def)

lemma b64_char_not_pad: "k < 64 \<Longrightarrow> b64_char k \<noteq> CHR ''=''"
proof -
  assume "k < 64"
  have "code_of (CHR ''='') = 61" by (simp add: code_of_def)
  moreover have "code_of (b64_char k) \<noteq> 61"
    by (auto simp: b64_char_def code_of_char_of code_of_def)
  ultimately show ?thesis by metis
qed

lemma sextets_Cons: "k < 64 \<Longrightarrow> base64_sextets (b64_char k # cs) = k # base64_sextets cs"
  by (simp add: unbase64_b64_char b64_char_not_pad)

lemma sextets_pad: "base64_sextets (CHR ''='' # cs) = []"
  by simp

lemma pack_div: "r < m \<Longrightarrow> (q * m + r) div m = (q::nat)"
  by simp

lemma pack_mod: "r < m \<Longrightarrow> (q * m + r) mod m = (r::nat)"
  by simp

lemma group3:
  fixes A B C :: nat
  assumes "A < 256" "B < 256" "C < 256"
  shows "A div 4 < 64" "A mod 4 * 16 + B div 16 < 64" "B mod 16 * 4 + C div 64 < 64" "C mod 64 < 64"
    "A div 4 * 4 + (A mod 4 * 16 + B div 16) div 16 = A"
    "(A mod 4 * 16 + B div 16) mod 16 * 16 + (B mod 16 * 4 + C div 64) div 4 = B"
    "(B mod 16 * 4 + C div 64) mod 4 * 64 + C mod 64 = C"
proof -
  have b: "B div 16 < 16" and c: "C div 64 < 4"
    using assms by simp_all
  have a0: "A mod 4 < 4" and b0: "B mod 16 < 16"
    by simp_all
  show "A div 4 < 64" using assms by simp
  show "A mod 4 * 16 + B div 16 < 64" using a0 b by linarith
  show "B mod 16 * 4 + C div 64 < 64" using b0 c by linarith
  show "C mod 64 < 64" by simp
  show "A div 4 * 4 + (A mod 4 * 16 + B div 16) div 16 = A"
    by (simp only: pack_div [OF b]) simp
  show "(A mod 4 * 16 + B div 16) mod 16 * 16 + (B mod 16 * 4 + C div 64) div 4 = B"
    by (simp only: pack_mod [OF b] pack_div [OF c]) simp
  show "(B mod 16 * 4 + C div 64) mod 4 * 64 + C mod 64 = C"
    by (simp only: pack_mod [OF c]) simp
qed

lemma base64_roundtrip: "base64_decode (base64_encode bs) = bs"
  unfolding base64_decode_def
proof (induction bs rule: base64_encode.induct)
  case (1 a b c rest)
  note g = group3 [OF code_of_less [of a] code_of_less [of b] code_of_less [of c]]
  have "base64_sextets (base64_encode (a # b # c # rest)) =
      code_of a div 4 # (code_of a mod 4 * 16 + code_of b div 16) #
      (code_of b mod 16 * 4 + code_of c div 64) # code_of c mod 64 #
      base64_sextets (base64_encode rest)"
    by (simp add: sextets_Cons g(1-4) del: base64_sextets.simps)
  then show ?case
    using 1 by (simp only: base64_bytes.simps g(5-7) char_of_code_of)
next
  case (2 a b)
  note g = group3 [OF code_of_less [of a] code_of_less [of b], of 0]
  have "base64_sextets (base64_encode [a, b]) =
      [code_of a div 4, code_of a mod 4 * 16 + code_of b div 16, code_of b mod 16 * 4 + 0 div 64]"
    using g(1-3) by (simp add: sextets_Cons sextets_pad del: base64_sextets.simps)
  then show ?case
    by (simp only: base64_bytes.simps g(5-6) char_of_code_of)
next
  case (3 a)
  note g = group3 [OF code_of_less [of a], of 0 0]
  have "base64_sextets (base64_encode [a]) =
      [code_of a div 4, code_of a mod 4 * 16 + 0 div 16]"
    using g(1-2) by (simp add: sextets_Cons sextets_pad del: base64_sextets.simps)
  then show ?case
    by (simp only: base64_bytes.simps g(5) char_of_code_of)
next
  case 4
  then show ?case by simp
qed

subsection \<open>UTF-8\<close>

lemma utf8_scan_append:
  "utf8_scan st (a @ b) =
     (case utf8_scan st a of
        (out, st') \<Rightarrow> (case utf8_scan st' b of (rest, final) \<Rightarrow> (out @ rest, final)))"
  by (induction a arbitrary: st) (auto split: prod.splits)

lemma utf8_scan_Cons:
  "utf8_scan st (b # bs) =
     (fst (utf8_step st b) @ fst (utf8_scan (snd (utf8_step st b)) bs),
      snd (utf8_scan (snd (utf8_step st b)) bs))"
  by (simp split: prod.splits)

lemma well_formed_text_append:
  "well_formed_text a \<Longrightarrow> well_formed_text b \<Longrightarrow> well_formed_text (a @ b)"
  by (simp add: well_formed_text_def utf8_scan_append)

lemma utf8_toString_well_formed: "well_formed_text s \<Longrightarrow> utf8_toString s = s"
  by (simp add: well_formed_text_def utf8_toString_def)

lemma utf8_lead_ascii: "ascii c \<Longrightarrow> utf8_lead c = ([c], Idle)"
  by (simp add: ascii_def utf8_lead_def)

lemma utf8_scan_ascii:
  "list_all ascii s \<Longrightarrow> utf8_scan Idle (s @ rest) =
     (s @ fst (utf8_scan Idle rest), snd (utf8_scan Idle rest))"
  by (induction s) (auto simp: utf8_step_def utf8_lead_ascii split: prod.splits)

lemma well_formed_text_ascii: "list_all ascii s \<Longrightarrow> well_formed_text s"
  using utf8_scan_ascii [of s "[]"] by (simp add: well_formed_text_def)

lemma ascii_specials:
  "ascii dquote" "ascii backslash" "ascii (CHR 0x08)" "ascii (CHR 0x0C)" "ascii (CHR 0x0A)"
  "ascii (CHR 0x0D)" "ascii (CHR 0x09)"
  by (simp_all add: ascii_def dquote_def backslash_def code_of_def)

lemma ascii_hex_digit: "n < 16 \<Longrightarrow> ascii (hex_digit n)"
  by (simp add: ascii_def hex_digit_def code_of_char_of)

lemma ascii_letters:
  "ascii (CHR ''b'')" "ascii (CHR ''f'')" "ascii (CHR ''n'')" "ascii (CHR ''r'')"
  "ascii (CHR ''t'')" "ascii (CHR ''u'')" "ascii (CHR ''0'')"
  by (simp_all add: ascii_def code_of_def)

lemma escape_char_ascii:
  assumes "ascii c"
  shows "list_all ascii (escape_char c)"
proof (cases "code_of c < 0x20")
  case True
  then have "code_of c div 16 < 16" "code_of c mod 16 < 16" by simp_all
  then have "ascii (hex_digit (code_of c div 16))" "ascii (hex_digit (code_of c mod 16))"
    by (simp_all only: ascii_hex_digit)
  with assms show ?thesis
    by (simp add: escape_char_def ascii_specials ascii_letters)
next
  case False
  with assms show ?thesis
    by (simp add: escape_char_def ascii_specials ascii_letters)
qed

lemma escape_char_not_ascii:
  assumes "\<not> ascii c"
  shows "escape_char c = [c]"
proof -
  have "c \<noteq> dquote" "c \<noteq> backslash" "c \<noteq> CHR 0x08" "c \<noteq> CHR 0x0C" "c \<noteq> CHR 0x0A"
    "c \<noteq> CHR 0x0D" "c \<noteq> CHR 0x09"
    using assms ascii_specials by blast+
  moreover have "\<not> code_of c < 0x20"
    using assms by (simp add: ascii_def)
  ultimately show ?thesis
    by (simp add: escape_char_def)
qed

lemma escape_not_ascii:
  "list_all (\<lambda>c. \<not> ascii c) s \<Longrightarrow> concat (map escape_char s) = s"
  by (induction s) (simp_all add: escape_char_not_ascii)

lemma replacement_not_ascii: "list_all (\<lambda>c. \<not> ascii c) replacement"
  by (simp add: replacement_def ascii_def code_of_def)

lemma utf8_step_ascii:
  assumes "ascii c" and "state_ok st"
  shows "utf8_step st c = ((if st = Idle then [] else replacement) @ [c], Idle)"
  using assms
  by (cases st) (auto simp: utf8_step_def utf8_lead_ascii state_ok_def ascii_def)

lemma utf8_step_not_ascii:
  assumes "\<not> ascii c" and "state_ok st"
  shows "list_all (\<lambda>c. \<not> ascii c) (fst (utf8_step st c)) \<and> state_ok (snd (utf8_step st c))"
proof -
  have lead: "list_all (\<lambda>c. \<not> ascii c) (fst (utf8_lead c)) \<and> state_ok (snd (utf8_lead c))"
    using assms(1) assms(1) [unfolded ascii_def] replacement_not_ascii
    by (simp add: utf8_lead_def Let_def state_ok_def)
  show ?thesis
  proof (cases st)
    case Idle
    with lead show ?thesis by (simp add: utf8_step_def)
  next
    case (Pending k lo hi acc)
    with assms lead replacement_not_ascii show ?thesis
      by (auto simp: utf8_step_def state_ok_def)
  qed
qed

lemma utf8_scan_escape:
  assumes "state_ok st"
  shows "utf8_scan st (concat (map escape_char s)) =
     (concat (map escape_char (fst (utf8_scan st s))), snd (utf8_scan st s))"
  using assms
proof (induction s arbitrary: st)
  case Nil
  then show ?case by simp
next
  case (Cons c s)
  show ?case
  proof (cases "ascii c")
    case True
    let ?pre = "if st = Idle then [] else replacement"
    have step: "utf8_step st c = (?pre @ [c], Idle)"
      by (rule utf8_step_ascii [OF True Cons.prems])
    obtain e es where esc: "escape_char c = e # es"
      by (cases "escape_char c") (auto simp: escape_char_def split: if_splits)
    have all: "list_all ascii (e # es)"
      using escape_char_ascii [OF True] esc by simp
    then have e: "ascii e" and es: "list_all ascii es" by simp_all
    have first: "utf8_step st e = (?pre @ [e], Idle)"
      by (rule utf8_step_ascii [OF e Cons.prems])
    have idle: "state_ok Idle" by (simp add: state_ok_def)
    have pre: "concat (map escape_char ?pre) = ?pre"
      using escape_not_ascii [OF replacement_not_ascii] by simp
    have "utf8_scan st (concat (map escape_char (c # s))) =
        utf8_scan st (e # (es @ concat (map escape_char s)))"
      by (simp add: esc)
    also have "\<dots> = (?pre @ e # es @ fst (utf8_scan Idle (concat (map escape_char s))),
        snd (utf8_scan Idle (concat (map escape_char s))))"
      by (simp add: first utf8_scan_ascii [OF es] split: prod.splits)
    also have "\<dots> = (concat (map escape_char (fst (utf8_scan st (c # s)))),
        snd (utf8_scan st (c # s)))"
    proof -
      have "utf8_scan st (c # s) = (?pre @ c # fst (utf8_scan Idle s), snd (utf8_scan Idle s))"
        by (simp add: step split: prod.splits)
      then show ?thesis
        using pre by (simp add: Cons.IH [OF idle] esc)
    qed
    finally show ?thesis .
  next
    case False
    from utf8_step_not_ascii [OF False Cons.prems]
    have out: "list_all (\<lambda>c. \<not> ascii c) (fst (utf8_step st c))"
      and ok: "state_ok (snd (utf8_step st c))"
      by simp_all
    show ?thesis
      by (simp add: escape_char_not_ascii [OF False] utf8_scan_Cons Cons.IH [OF ok]
          escape_not_ascii [OF out] del: utf8_scan.simps)
  qed
qed

lemma well_formed_text_escape:
  "well_formed_text s \<Longrightarrow> well_formed_text (concat (map escape_char s))"
  using utf8_scan_escape [of Idle s]
  by (simp add: well_formed_text_def state_ok_def)

lemma well_formed_text_quote:
  "well_formed_text s \<Longrightarrow> well_formed_text (quote_json_string s)"
proof -
  assume "well_formed_text s"
  then have "well_formed_text (concat (map escape_char s))"
    by (rule well_formed_text_escape)
  moreover have "well_formed_text [dquote]"
    by (rule well_formed_text_ascii) (simp add: ascii_def dquote_def code_of_def)
  ultimately have "well_formed_text ([dquote] @ concat (map escape_char s) @ [dquote])"
    by (intro well_formed_text_append)
  then show ?thesis by (simp add: quote_json_string_def)
qed

subsection \<open>String literals\<close>

lemma char_eq_code: "c = d \<longleftrightarrow> code_of c = code_of d"
  by (auto simp: code_of_def)

lemma lex_Cons:
  "lex_step st c = Some (ts, st') \<Longrightarrow> lex st (c # cs) = map_option ((@) ts) (lex st' cs)"
  by (cases "lex st' cs") simp_all

lemma append_fun_simps: "(@) [] = (\<lambda>x. x)" "(@) [a] = (#) a"
  by (rule ext, simp)+

lemma lex_string_char:
  "c \<noteq> dquote \<Longrightarrow> c \<noteq> backslash \<Longrightarrow>
     lex (InString raw) (c # rest) = lex (InString (raw @ [c])) rest"
  by (simp add: lex_Cons lex_step_def append_fun_simps option.map_ident del: lex.simps)

lemma lex_string_escape:
  "lex (InString raw) (backslash # x # rest) = lex (InString (raw @ [backslash, x])) rest"
  by (simp add: lex_Cons lex_step_def dquote_def backslash_def append_fun_simps option.map_ident del: lex.simps)

lemma hex_digit_plain: "n < 16 \<Longrightarrow> hex_digit n \<noteq> dquote \<and> hex_digit n \<noteq> backslash"
  by (simp add: char_eq_code hex_digit_def code_of_char_of dquote_def backslash_def)
     (simp add: code_of_def)

lemma lex_string_escape_char:
  "lex (InString raw) (escape_char c @ rest) = lex (InString (raw @ escape_char c)) rest"
proof (cases "code_of c < 0x20")
  case True
  then have "code_of c div 16 < 16" "code_of c mod 16 < 16" by simp_all
  note h = hex_digit_plain [OF this(1)] hex_digit_plain [OF this(2)]
  have z: "CHR ''0'' \<noteq> dquote" "CHR ''0'' \<noteq> backslash"
    by (simp_all add: dquote_def backslash_def)
  show ?thesis
    using h z by (simp add: escape_char_def lex_string_escape lex_string_char del: lex.simps)
next
  case False
  then show ?thesis
    by (simp add: escape_char_def lex_string_escape lex_string_char del: lex.simps)
qed

lemma lex_string_escaped:
  "lex (InString raw) (concat (map escape_char s) @ rest) =
     lex (InString (raw @ concat (map escape_char s))) rest"
  by (induction s arbitrary: raw) (simp_all add: lex_string_escape_char del: lex.simps)

lemma lex_string_close:
  "lex (InString raw) (dquote # rest) =
     (case json_unescape raw of
        None \<Rightarrow> None
      | Some s \<Rightarrow> map_option ((#) (TString s)) (lex Start rest))"
  by (cases "lex Start rest") (simp_all add: lex_step_def split: option.splits)

lemma hex_val_hex_digit: "n < 16 \<Longrightarrow> hex_val (hex_digit n) = Some n"
  by (auto simp: hex_val_def hex_digit_def code_of_char_of Let_def)

lemma json_unescape_escape_char:
  "json_unescape (escape_char c @ rest) = map_option ((#) c) (json_unescape rest)"
proof (cases "code_of c < 0x20")
  case True
  then have d: "code_of c div 16 < 16" "code_of c mod 16 < 16" by simp_all
  have z: "hex_val (CHR ''0'') = Some 0"
    by (simp add: hex_val_def code_of_def)
  have v: "hex4 (CHR ''0'') (CHR ''0'') (hex_digit (code_of c div 16))
      (hex_digit (code_of c mod 16)) = Some (code_of c)"
    by (simp add: hex4_def z hex_val_hex_digit d)
  have u: "utf8_encode_unit (code_of c) = [c]"
    using True by (simp add: utf8_encode_unit_def char_of_code_of)
  have b: "CHR ''u'' \<noteq> backslash" "simple_escape dquote = Some dquote"
    "simple_escape backslash = Some backslash" "simple_escape (CHR ''b'') = Some (CHR 0x08)"
    "simple_escape (CHR ''f'') = Some (CHR 0x0C)" "simple_escape (CHR ''n'') = Some (CHR 0x0A)"
    "simple_escape (CHR ''r'') = Some (CHR 0x0D)" "simple_escape (CHR ''t'') = Some (CHR 0x09)"
    by (simp_all add: simple_escape_def backslash_def dquote_def)
  have nu: "dquote \<noteq> CHR ''u''" "backslash \<noteq> CHR ''u''"
    by (simp_all add: backslash_def dquote_def)
  show ?thesis
    using True by (simp add: escape_char_def v u b nu append_fun_simps)
next
  case False
  have b: "simple_escape dquote = Some dquote" "simple_escape backslash = Some backslash"
    by (simp_all add: simple_escape_def backslash_def dquote_def)
  have nu: "dquote \<noteq> CHR ''u''" "backslash \<noteq> CHR ''u''" "dquote \<noteq> backslash"
    by (simp_all add: backslash_def dquote_def)
  have ne: "c \<noteq> CHR 0x08" "c \<noteq> CHR 0x0C" "c \<noteq> CHR 0x0A" "c \<noteq> CHR 0x0D" "c \<noteq> CHR 0x09"
    using False by (auto simp: code_of_def)
  from False ne show ?thesis
    by (simp add: escape_char_def b nu)
qed

lemma json_unescape_escaped: "json_unescape (concat (map escape_char s)) = Some s"
proof (induction s)
  case Nil
  show ?case by simp
next
  case (Cons c s)
  have "json_unescape (concat (map escape_char (c # s))) =
      json_unescape (escape_char c @ concat (map escape_char s))"
    by simp
  also have "\<dots> = Some (c # s)"
    by (simp only: json_unescape_escape_char Cons.IH option.map)
  finally show ?case .
qed

lemma lex_quoted:
  "lex Start (quote_json_string s @ rest) = map_option ((#) (TString s)) (lex Start rest)"
proof -
  have "lex Start (quote_json_string s @ rest) =
      lex (InString []) (concat (map escape_char s) @ dquote # rest)"
    by (simp add: quote_json_string_def lex_Cons [where ts = "[]" and st' = "InString []"]
        lex_step_def lex_start_def is_ws_def dquote_def append_fun_simps option.map_ident del: lex.simps)
  also have "\<dots> = lex (InString (concat (map escape_char s))) (dquote # rest)"
    by (simp add: lex_string_escaped del: lex.simps)
  also have "\<dots> = map_option ((#) (TString s)) (lex Start rest)"
    by (simp add: lex_string_close json_unescape_escaped del: lex.simps)
  finally show ?thesis .
qed

subsection \<open>Numbers\<close>

lemma lex_Cons_silent:
  "lex_step st c = Some ([], st') \<Longrightarrow> lex st (c # cs) = lex st' cs"
  by (simp add: lex_Cons append_fun_simps option.map_ident del: lex.simps)

lemma digit_char:
  assumes "k < 10"
  shows "is_digit (char_of (48 + k))" "digit_val (char_of (48 + k)) = k"
    "code_of (char_of (48 + k)) = 48 + k"
  using assms by (simp_all add: is_digit_def digit_val_def code_of_char_of)

lemma lex_start_digit:
  assumes "0 < k" and "k < 10"
  shows "lex_start (char_of (48 + k)) = Some ([], InNumber IntDigits (new_number False k))"
proof -
  let ?c = "char_of (48 + k)"
  have c: "code_of ?c = 48 + k" using assms by (simp add: code_of_char_of)
  have "\<not> is_ws ?c" "?c \<noteq> CHR ''{''" "?c \<noteq> CHR ''}''" "?c \<noteq> CHR ''[''" "?c \<noteq> CHR '']''"
    "?c \<noteq> CHR '':''" "?c \<noteq> CHR '',''" "?c \<noteq> dquote" "?c \<noteq> CHR ''t''" "?c \<noteq> CHR ''f''"
    "?c \<noteq> CHR ''n''" "?c \<noteq> CHR ''-''" "?c \<noteq> CHR ''0''"
    using assms by (simp_all add: is_ws_def dquote_def char_eq_code [of ?c] c) (simp_all add: code_of_def)
  then show ?thesis
    using assms by (simp add: lex_start_def digit_char)
qed

lemma lex_after_minus_digit:
  assumes "0 < k" and "k < 10"
  shows "lex_number AfterMinus (new_number neg 0) (char_of (48 + k)) =
     Some ([], InNumber IntDigits (new_number neg k))"
proof -
  let ?c = "char_of (48 + k)"
  have c: "code_of ?c = 48 + k" using assms by (simp add: code_of_char_of)
  have "?c \<noteq> CHR ''0''"
    using assms by (simp add: char_eq_code [of ?c] c) (simp add: code_of_def)
  then show ?thesis
    using assms by (simp add: lex_number_def digit_char add_int_digit_def new_number_def)
qed

lemma lex_int_digit:
  assumes "k < 10"
  shows "lex_number IntDigits (new_number neg m) (char_of (48 + k)) =
     Some ([], InNumber IntDigits (new_number neg (m * 10 + k)))"
  using assms by (simp add: lex_number_def digit_char add_int_digit_def new_number_def)

lemma lex_digits:
  "0 < n \<Longrightarrow> lex Start (bigint_toString n @ rest) =
     lex (InNumber IntDigits (new_number False n)) rest"
proof (induction n arbitrary: rest rule: bigint_toString.induct)
  case (1 n)
  show ?case
  proof (cases "n < 10")
    case True
    with "1.prems" show ?thesis
      by (simp add: bigint_toString.simps [of n] lex_Cons_silent lex_step_def lex_start_digit
          del: lex.simps)
  next
    case False
    then have pos: "0 < n div 10" by simp
    have "lex Start (bigint_toString n @ rest) =
        lex Start (bigint_toString (n div 10) @ char_of (48 + n mod 10) # rest)"
      using False by (simp add: bigint_toString.simps [of n])
    also have "\<dots> = lex (InNumber IntDigits (new_number False (n div 10)))
        (char_of (48 + n mod 10) # rest)"
      using False pos by (rule "1.IH")
    also have "\<dots> = lex (InNumber IntDigits (new_number False (n div 10 * 10 + n mod 10))) rest"
      by (simp add: lex_Cons_silent lex_step_def lex_int_digit del: lex.simps)
    finally show ?thesis by simp
  qed
qed

lemma lex_digits_after_minus:
  "0 < n \<Longrightarrow> lex (InNumber AfterMinus (new_number True 0)) (bigint_toString n @ rest) =
     lex (InNumber IntDigits (new_number True n)) rest"
proof (induction n arbitrary: rest rule: bigint_toString.induct)
  case (1 n)
  show ?case
  proof (cases "n < 10")
    case True
    with "1.prems" show ?thesis
      by (simp add: bigint_toString.simps [of n] lex_Cons_silent lex_step_def
          lex_after_minus_digit del: lex.simps)
  next
    case False
    then have pos: "0 < n div 10" by simp
    have "lex (InNumber AfterMinus (new_number True 0)) (bigint_toString n @ rest) =
        lex (InNumber AfterMinus (new_number True 0))
          (bigint_toString (n div 10) @ char_of (48 + n mod 10) # rest)"
      using False by (simp add: bigint_toString.simps [of n])
    also have "\<dots> = lex (InNumber IntDigits (new_number True (n div 10)))
        (char_of (48 + n mod 10) # rest)"
      using False pos by (rule "1.IH")
    also have "\<dots> = lex (InNumber IntDigits (new_number True (n div 10 * 10 + n mod 10))) rest"
      by (simp add: lex_Cons_silent lex_step_def lex_int_digit del: lex.simps)
    finally show ?thesis by simp
  qed
qed

lemma number_value_new: "number_value (new_number neg n) = (if neg then - of_nat n else of_nat n)"
  by (simp add: number_value_def new_number_def)

lemma lex_number_comma:
  "ph = IntDigits \<or> ph = AfterZero \<Longrightarrow>
   lex (InNumber ph a) (CHR '','' # rest) =
     map_option ((@) [TNumber (number_value a), Comma]) (lex Start rest)"
  by (cases "lex Start rest")
     (auto simp: lex_step_def lex_number_def end_number_def lex_start_def is_ws_def is_digit_def
        code_of_def)

lemma lex_number_toString:
  "lex Start (number_toString i @ CHR '','' # rest) =
     map_option ((@) [TNumber (of_int i), Comma]) (lex Start rest)"
proof -
  consider "i = 0" | "0 < i" | "i < 0" by linarith
  then show ?thesis
  proof cases
    case 1
    have "lex Start (''0'' @ CHR '','' # rest) =
        lex (InNumber AfterZero (new_number False 0)) (CHR '','' # rest)"
      by (simp add: lex_Cons_silent lex_step_def lex_start_def is_ws_def dquote_def
          del: lex.simps)
    moreover have "bigint_toString 0 = ''0''"
      by (simp add: bigint_toString.simps char_eval)
    ultimately show ?thesis
      using 1 by (simp add: number_toString_def lex_number_comma number_value_new
          del: lex.simps)
  next
    case 2
    then have n: "0 < nat i" by simp
    have "lex Start (number_toString i @ CHR '','' # rest) =
        lex (InNumber IntDigits (new_number False (nat i))) (CHR '','' # rest)"
      using 2 by (simp add: number_toString_def lex_digits [OF n] del: lex.simps)
    then show ?thesis
      using 2 by (simp add: lex_number_comma number_value_new del: lex.simps)
  next
    case 3
    then have n: "0 < nat (- i)" by simp
    have "lex Start (number_toString i @ CHR '','' # rest) =
        lex (InNumber AfterMinus (new_number True 0)) (bigint_toString (nat (- i)) @ CHR '','' # rest)"
      using 3 by (simp add: number_toString_def lex_Cons_silent lex_step_def lex_start_def
          is_ws_def dquote_def del: lex.simps)
    also have "\<dots> = lex (InNumber IntDigits (new_number True (nat (- i)))) (CHR '','' # rest)"
      by (rule lex_digits_after_minus [OF n])
    finally show ?thesis
      using 3 by (simp add: lex_number_comma number_value_new del: lex.simps)
  qed
qed

subsection \<open>The payload\<close>

lemma ascii_digits: "list_all ascii (bigint_toString n)"
proof (induction n rule: bigint_toString.induct)
  case (1 n)
  have d: "ascii (char_of (48 + n mod 10))"
    by (simp add: ascii_def code_of_char_of)
  show ?case
  proof (cases "n < 10")
    case True
    then show ?thesis
      by (simp add: bigint_toString.simps [of n] ascii_def code_of_char_of)
  next
    case False
    with "1.IH" d show ?thesis
      by (simp add: bigint_toString.simps [of n])
  qed
qed

lemma well_formed_text_number: "well_formed_text (number_toString i)"
  by (rule well_formed_text_ascii)
     (simp add: number_toString_def ascii_digits, simp add: ascii_def code_of_def)

lemma well_formed_text_key: "list_all ascii k \<Longrightarrow> well_formed_text (json_key k)"
  by (rule well_formed_text_ascii)
     (simp add: json_key_def ascii_def dquote_def, simp add: code_of_def)

lemma well_formed_text_Cons: "ascii c \<Longrightarrow> well_formed_text s \<Longrightarrow> well_formed_text (c # s)"
  using well_formed_text_append [of "[c]" s] well_formed_text_ascii [of "[c]"] by simp

lemma ascii_keys:
  "list_all ascii ''x402Version''" "list_all ascii ''scheme''" "list_all ascii ''network''"
  "list_all ascii ''payload''" "list_all ascii ''signedTransaction''"
  "ascii (CHR ''{'')" "ascii (CHR ''}'')" "ascii (CHR '','')"
  by (simp_all add: ascii_def code_of_def)

lemma well_formed_text_Nil: "well_formed_text []"
  by (simp add: well_formed_text_def)

lemma well_formed_stringify:
  assumes "well_formed_payload p"
  shows "well_formed_text (stringify_payload p)"
  using assms unfolding stringify_payload_def well_formed_payload_def
  by (auto intro!: well_formed_text_append well_formed_text_Cons well_formed_text_key
      well_formed_text_quote well_formed_text_number well_formed_text_Nil ascii_keys)

lemma lex_punctuation:
  "lex Start (CHR ''{'' # rest) = map_option ((#) LBrace) (lex Start rest)"
  "lex Start (CHR ''}'' # rest) = map_option ((#) RBrace) (lex Start rest)"
  "lex Start (CHR '','' # rest) = map_option ((#) Comma) (lex Start rest)"
  "lex Start (CHR '':'' # rest) = map_option ((#) Colon) (lex Start rest)"
  by (simp_all add: lex_Cons lex_step_def lex_start_def is_ws_def append_fun_simps
      del: lex.simps)

lemma lex_Start_Nil: "lex Start [] = Some []"
  by (simp add: lex_end_def)

lemma lex_key:
  assumes "concat (map escape_char k) = k"
  shows "lex Start (json_key k @ rest) = map_option ((@) [TString k, Colon]) (lex Start rest)"
proof -
  have "json_key k @ rest = quote_json_string k @ CHR '':'' # rest"
    by (simp add: json_key_def quote_json_string_def assms)
  then show ?thesis
    by (cases "lex Start rest") (simp_all add: lex_quoted lex_punctuation del: lex.simps)
qed

lemma plain_keys:
  "concat (map escape_char ''x402Version'') = ''x402Version''"
  "concat (map escape_char ''scheme'') = ''scheme''"
  "concat (map escape_char ''network'') = ''network''"
  "concat (map escape_char ''payload'') = ''payload''"
  "concat (map escape_char ''signedTransaction'') = ''signedTransaction''"
  by (simp_all add: escape_char_def dquote_def backslash_def code_of_def)

lemma lex_stringify:
  "lex Start (stringify_payload p) =
     Some [LBrace, TString ''x402Version'', Colon,
             TNumber (of_int (PaymentPayload.x402Version p)), Comma,
           TString ''scheme'', Colon, TString (PaymentPayload.scheme p), Comma,
           TString ''network'', Colon, TString (PaymentPayload.network p), Comma,
           TString ''payload'', Colon,
             LBrace, TString ''signedTransaction'', Colon,
               TString (signedTransaction (payload p)), RBrace,
           RBrace]"
  by (simp add: stringify_payload_def lex_punctuation lex_key [OF plain_keys(1)]
      lex_key [OF plain_keys(2)] lex_key [OF plain_keys(3)] lex_key [OF plain_keys(4)]
      lex_key [OF plain_keys(5)] lex_number_toString lex_quoted lex_Start_Nil
      del: lex.simps)

lemma parse_stringify: "JSON_parse (stringify_payload p) = Some (payload_object p)"
  by (simp add: JSON_parse_def lex_stringify payload_object_def parse_step_def
      parse_value_token_def deliver_def close_array_def close_object_def open_key_def)

lemma decode_encode:
  assumes "well_formed_payload p"
  shows "decode_payment_header (encode_payment_header p) = Some (payload_object p)"
  by (simp add: decode_payment_header_def encode_payment_header_def base64_roundtrip
      utf8_toString_well_formed [OF well_formed_stringify [OF assms]] parse_stringify)

text \<open>
  C7. For every well-formed payment payload \<open>p\<close>, decoding the header obtained by
  encoding \<open>p\<close> (serialise to JSON, encode as base64; decode base64, read as UTF-8, parse
  as JSON) yields the object \<open>p\<close> was built from.
\<close>

theorem payment_header_roundtrip:
  assumes "well_formed_payload p"
  shows "decode_payment_header (encode_payment_header p) = Some (payload_object p)"
  using assms by (rule decode_encode)

theorem payment_header_roundtrip_witness:
  "well_formed_payload payload_example
   \<and> decode_payment_header (encode_payment_header payload_example) =
       Some (JObject [(''x402Version'', JNumber 1), (''scheme'', JString ''evm-transfer''),
         (''network'', JString ''monad-testnet''),
         (''payload'', JObject [(''signedTransaction'', JString ''0x02f86b'')])])"
proof -
  have w: "well_formed_payload payload_example"
    by (simp add: well_formed_payload_def payload_example_def well_formed_text_def
        utf8_step_def utf8_lead_def char_eval)
  from payment_header_roundtrip [OF w] w show ?thesis
    by (simp add: payload_object_def payload_example_def)
qed

end
